theory Spec2Isabelle
  imports Complex_Main "HOL-Library.Sublist" "HOL-Library.Word"
begin

section \<open>JavaScript values used by the view-model\<close>

subsection \<open>Strings\<close>

text \<open>
  A JavaScript string is a sequence of 16-bit code units. The description and the amount
  of the form, and the description and a textual amount of a transaction, are kept as
  such sequences: \<^verbatim>\<open>trim\<close> and \<^verbatim>\<open>parseFloat\<close> classify their code units. The
  texts that the component only compares, concatenates and searches (messages,
  identifiers, the type of a transaction, the key of the storage) are character lists.
  \<open>utf16\<close> gives the code units of a text of characters below U+0100.
\<close>

type_synonym code_unit = "16 word"

definition utf16 :: "string \<Rightarrow> code_unit list" where
  "utf16 s = map of_char s"

text \<open>
  The white space of \<^verbatim>\<open>String.prototype.trim\<close> and of \<^verbatim>\<open>parseFloat\<close>: the
  code units of WhiteSpace (tab, vertical tab, form feed, the byte order mark U+FEFF and
  the space separators U+0020, U+00A0, U+1680, U+2000 to U+200A, U+202F, U+205F, U+3000)
  and of LineTerminator (line feed, carriage return, U+2028, U+2029).
\<close>

definition isWhiteSpace :: "code_unit \<Rightarrow> bool" where
  "isWhiteSpace c =
     (c \<in> {0x09, 0x0A, 0x0B, 0x0C, 0x0D, 0x20, 0xA0, 0x1680, 0x2028, 0x2029, 0x202F, 0x205F,
            0x3000, 0xFEFF}
      \<or> (0x2000 \<le> c \<and> c \<le> 0x200A))"

text \<open>\<^verbatim>\<open>String.prototype.trim\<close>: white space is removed at both ends.\<close>

definition trim :: "code_unit list \<Rightarrow> code_unit list" where
  "trim s = rev (dropWhile isWhiteSpace (rev (dropWhile isWhiteSpace s)))"

text \<open>\<^verbatim>\<open>String.prototype.includes\<close>: the needle occurs at some position.\<close>

fun str_includes :: "string \<Rightarrow> string \<Rightarrow> bool" where
  "str_includes [] needle = (needle = [])"
| "str_includes (c # cs) needle = (prefix needle (c # cs) \<or> str_includes cs needle)"

text \<open>
  The decimal rendering of a non-negative integer inside a template literal. The digit is
  read from the string of the ten digits, at an index below ten.
\<close>

definition digitChar :: "nat \<Rightarrow> char" where
  "digitChar d = ''0123456789'' ! d"

fun showNat :: "nat \<Rightarrow> string" where
  "showNat n = (if n < 10 then [digitChar n] else showNat (n div 10) @ [digitChar (n mod 10)])"

declare showNat.simps [simp del]

subsection \<open>Numbers\<close>

text \<open>
  A JavaScript number is an IEEE-754 double: a finite value, one of the two infinities,
  or NaN. A finite double is given by the real number it stands for; every operation
  rounds its exact result to the nearest double, a tie going to the double with the even
  significand. The two zeros are one value here: no operation of the component tells
  them apart (\<^verbatim>\<open>-0 <= 0\<close> holds, \<^verbatim>\<open>toFixed\<close> and \<^verbatim>\<open>JSON.stringify\<close> write both
  as zero, and no sum that starts from \<^verbatim>\<open>0\<close> is \<^verbatim>\<open>-0\<close>).
\<close>

datatype number = NaN | NegInf | Num real | PosInf

text \<open>
  The binade of a positive real \<open>a\<close> is the integer \<open>k\<close> with \<open>2 ^ k \<le> a < 2 ^ (k + 1)\<close>,
  found by halving or doubling.
\<close>

function binade :: "real \<Rightarrow> int" where
  "binade a =
     (if a \<le> 0 then 0
      else if 2 \<le> a then binade (a / 2) + 1
      else if a < 1 then binade (2 * a) - 1
      else 0)"
  by pat_completeness auto

termination
proof (relation "measure (\<lambda>a. nat \<bar>\<lfloor>log 2 a\<rfloor>\<bar>)")
  show "wf (measure (\<lambda>a. nat \<bar>\<lfloor>log 2 a\<rfloor>\<bar>))"
    by simp
next
  fix a :: real
  assume "\<not> a \<le> 0" and a: "2 \<le> a"
  then have "log 2 (a / 2) = log 2 a - 1"
    by (simp add: log_divide)
  then have f: "\<lfloor>log 2 (a / 2)\<rfloor> = \<lfloor>log 2 a\<rfloor> - 1"
    by simp
  from a have "1 \<le> log 2 a"
    by (simp add: le_log_iff)
  then have "1 \<le> \<lfloor>log 2 a\<rfloor>"
    by simp
  with f have "nat \<bar>\<lfloor>log 2 (a / 2)\<rfloor>\<bar> < nat \<bar>\<lfloor>log 2 a\<rfloor>\<bar>"
    by linarith
  then show "(a / 2, a) \<in> measure (\<lambda>a. nat \<bar>\<lfloor>log 2 a\<rfloor>\<bar>)"
    unfolding in_measure .
next
  fix a :: real
  assume p: "\<not> a \<le> 0" and "\<not> 2 \<le> a" and a: "a < 1"
  then have "log 2 (2 * a) = 1 + log 2 a"
    by (simp add: log_mult)
  then have f: "\<lfloor>log 2 (2 * a)\<rfloor> = \<lfloor>log 2 a\<rfloor> + 1"
    by simp
  from p a have "log 2 a < 0"
    by simp
  then have "\<lfloor>log 2 a\<rfloor> < 0"
    by simp
  with f have "nat \<bar>\<lfloor>log 2 (2 * a)\<rfloor>\<bar> < nat \<bar>\<lfloor>log 2 a\<rfloor>\<bar>"
    by linarith
  then show "(2 * a, a) \<in> measure (\<lambda>a. nat \<bar>\<lfloor>log 2 a\<rfloor>\<bar>)"
    unfolding in_measure .
qed

declare binade.simps [simp del]

definition roundHalfEven :: "real \<Rightarrow> int" where
  "roundHalfEven q =
     (let f = \<lfloor>q\<rfloor>; d = q - of_int f
      in if d < 1 / 2 then f else if 1 / 2 < d then f + 1 else if even f then f else f + 1)"

definition roundToDouble :: "real \<Rightarrow> number" where
  "roundToDouble x =
     (let a = \<bar>x\<bar>;
          u = (if a < 2 powi (- 1022) then 2 powi (- 1074) else 2 powi (binade a - 52));
          r = of_int (roundHalfEven (a / u)) * u
      in if 2 powi 1024 \<le> a \<or> 2 powi 1024 \<le> r then (if x < 0 then NegInf else PosInf)
         else Num (if x < 0 then - r else r))"


fun js_neg :: "number \<Rightarrow> number" where
  "js_neg NaN = NaN"
| "js_neg NegInf = PosInf"
| "js_neg (Num a) = Num (- a)"
| "js_neg PosInf = NegInf"


fun isNaN :: "number \<Rightarrow> bool" where
  "isNaN NaN = True"
| "isNaN _ = False"

text \<open>The comparison \<^verbatim>\<open>x <= 0\<close>; it is false for NaN.\<close>

fun le_zero :: "number \<Rightarrow> bool" where
  "le_zero NaN = False"
| "le_zero NegInf = True"
| "le_zero (Num a) = (a \<le> 0)"
| "le_zero PosInf = False"

text \<open>
  \<^verbatim>\<open>x.toFixed(2)\<close>: for a finite \<open>x\<close> of magnitude below \<open>10 ^ 21\<close>, the integer \<open>n\<close>
  nearest to the hundredfold of the magnitude (the larger one of two) is written with a
  point before its last two digits, after a minus sign when \<open>x < 0\<close>. For a magnitude of
  \<open>10 ^ 21\<close> or more the result is the exponent notation of the number, which is not
  modelled: the result is \<open>None\<close> there.
\<close>

definition toFixed2 :: "number \<Rightarrow> string option" where
  "toFixed2 x =
     (case x of
        NaN \<Rightarrow> Some ''NaN''
      | NegInf \<Rightarrow> Some ''-Infinity''
      | PosInf \<Rightarrow> Some ''Infinity''
      | Num r \<Rightarrow>
          let n = nat \<lfloor>\<bar>r\<bar> * 100 + 1 / 2\<rfloor>
          in if 10 ^ 21 \<le> \<bar>r\<bar> then None
             else Some ((if r < 0 then ''-'' else []) @ showNat (n div 100) @ ''.''
                        @ [digitChar (n div 10 mod 10), digitChar (n mod 10)]))"

subsection \<open>parseFloat\<close>

definition isDigit :: "code_unit \<Rightarrow> bool" where
  "isDigit c = (0x30 \<le> c \<and> c \<le> 0x39)"

definition digitVal :: "code_unit \<Rightarrow> nat" where
  "digitVal c = unat c - 0x30"

definition digitsVal :: "code_unit list \<Rightarrow> nat" where
  "digitsVal ds = foldl (\<lambda>acc c. 10 * acc + digitVal c) 0 ds"

text \<open>
  The exponent part of a decimal literal, \<^verbatim>\<open>e\<close> or \<^verbatim>\<open>E\<close>, an optional
  sign and at least one digit; anything else is not part of the literal and counts as
  exponent 0.
\<close>

definition exponentPart :: "code_unit list \<Rightarrow> int" where
  "exponentPart s =
     (case s of
        [] \<Rightarrow> 0
      | e # r \<Rightarrow>
          if e = of_char CHR ''e'' \<or> e = of_char CHR ''E'' then
            (case r of
               [] \<Rightarrow> 0
             | sg # r' \<Rightarrow>
                 if sg = of_char CHR ''-'' then
                   (if takeWhile isDigit r' = [] then 0 else - int (digitsVal (takeWhile isDigit r')))
                 else if sg = of_char CHR ''+'' then
                   (if takeWhile isDigit r' = [] then 0 else int (digitsVal (takeWhile isDigit r')))
                 else int (digitsVal (takeWhile isDigit r)))
          else 0)"

definition scale10 :: "real \<Rightarrow> int \<Rightarrow> real" where
  "scale10 m e = (if 0 \<le> e then m * 10 ^ nat e else m / 10 ^ nat (- e))"

text \<open>
  \<^verbatim>\<open>parseFloat\<close> on a string: leading white space is skipped, then the longest
  prefix that is a decimal literal (optional sign; \<^verbatim>\<open>Infinity\<close>, or digits with an
  optional fraction and exponent) is read; with no such prefix the result is NaN. The
  value of the literal is rounded to the nearest double, as the engines in use do; for
  a literal of more than twenty significant digits the language definition also admits
  the rounding of the literal cut after its twentieth digit, or of that plus one unit of
  the twentieth digit.
\<close>

definition parseUnsigned :: "code_unit list \<Rightarrow> number" where
  "parseUnsigned u =
     (if prefix (utf16 ''Infinity'') u then PosInf
      else
        let ip = takeWhile isDigit u;
            r1 = dropWhile isDigit u;
            fp = (case r1 of [] \<Rightarrow> [] | d # r \<Rightarrow> if d = of_char CHR ''.'' then takeWhile isDigit r else []);
            r2 = (case r1 of [] \<Rightarrow> [] | d # r \<Rightarrow> if d = of_char CHR ''.'' then dropWhile isDigit r else r1)
        in if ip = [] \<and> fp = [] then NaN
           else roundToDouble
                  (scale10 (real (digitsVal (ip @ fp))) (exponentPart r2 - int (length fp))))"

definition parseFloat :: "code_unit list \<Rightarrow> number" where
  "parseFloat s =
     (case dropWhile isWhiteSpace s of
        [] \<Rightarrow> NaN
      | c # r \<Rightarrow>
          if c = of_char CHR ''-'' then js_neg (parseUnsigned r)
          else if c = of_char CHR ''+'' then parseUnsigned r
          else parseUnsigned (c # r))"


section \<open>Transactions and the aggregates\<close>

text \<open>
  The \<^verbatim>\<open>amount\<close> property in JSON: a numeric literal, a string or \<^verbatim>\<open>null\<close>.
  Reading the JSON rounds a numeric literal to a double, and \<^verbatim>\<open>parseFloat\<close> renders
  a number as a string and reads it back, which gives the number itself; \<^verbatim>\<open>null\<close>
  is rendered \<^verbatim>\<open>null\<close>, which is no decimal literal. Any other value is read through
  its conversion to a string, like a string.
\<close>

datatype amount_json = ANum real | AStr "code_unit list" | ANull

fun parseFloat_json :: "amount_json \<Rightarrow> number" where
  "parseFloat_json (ANum r) = roundToDouble r"
| "parseFloat_json (AStr s) = parseFloat s"
| "parseFloat_json ANull = NaN"

text \<open>
  \<^verbatim>\<open>JSON.stringify\<close> of a number: a finite number is written as a numeric literal
  that reads back as the same double, NaN and the infinities are written \<^verbatim>\<open>null\<close>.
\<close>

fun jsonNumber :: "number \<Rightarrow> amount_json" where
  "jsonNumber (Num r) = ANum r"
| "jsonNumber NaN = ANull"
| "jsonNumber NegInf = ANull"
| "jsonNumber PosInf = ANull"

record transaction =
  tx_id :: string
  tx_description :: "code_unit list"
  tx_amount :: amount_json
  tx_type :: string
  tx_timestamp :: nat
  tx_userId :: string





fun isFinite :: "number \<Rightarrow> bool" where
  "isFinite (Num _) = True"
| "isFinite _ = False"

fun finiteValue :: "number \<Rightarrow> real" where
  "finiteValue (Num r) = r"
| "finiteValue _ = 0"



section \<open>The state of the component\<close>

text \<open>The \<^verbatim>\<open>useState\<close> variables of \<^verbatim>\<open>App\<close>, with their initial values.\<close>

record state =
  description :: "code_unit list"
  amount :: "code_unit list"
  type :: string
  transactions :: "transaction list"
  loading :: bool
  message :: string
  showMessage :: bool
  userId :: string

definition initialState :: "string \<Rightarrow> state" where
  "initialState uid =
     \<lparr>description = [], amount = [], type = ''expense'', transactions = [], loading = True,
      message = [], showMessage = False, userId = uid\<rparr>"

subsection \<open>The user identifier\<close>

text \<open>
  \<^verbatim>\<open>localStorage\<close> is a map from keys to strings; \<^verbatim>\<open>getItem\<close> of an absent key
  is \<^verbatim>\<open>null\<close>. The condition \<^verbatim>\<open>if (storedUserId)\<close> holds for a string that is
  not empty. \<^verbatim>\<open>Date.now()\<close> and \<^verbatim>\<open>Math.random().toString(36)\<close> are inputs.
\<close>

type_synonym storage = "string \<rightharpoonup> string"

definition substring :: "string \<Rightarrow> nat \<Rightarrow> nat \<Rightarrow> string" where
  "substring s a b = take (max a b - min a b) (drop (min a b) s)"

definition newUserId :: "nat \<Rightarrow> string \<Rightarrow> string" where
  "newUserId now random36 = ''user_'' @ showNat now @ ''_'' @ substring random36 2 9"

definition initUserId :: "nat \<Rightarrow> string \<Rightarrow> storage \<Rightarrow> string \<times> storage" where
  "initUserId now random36 localStorage =
     (case localStorage ''financeAppUserId'' of
        Some storedUserId \<Rightarrow>
          if storedUserId \<noteq> [] then (storedUserId, localStorage)
          else (newUserId now random36,
                localStorage(''financeAppUserId'' \<mapsto> newUserId now random36))
      | None \<Rightarrow>
          (newUserId now random36,
           localStorage(''financeAppUserId'' \<mapsto> newUserId now random36)))"

section \<open>The network\<close>

text \<open>
  A \<^verbatim>\<open>fetch\<close> either rejects with an error that carries a message (the request did
  not reach the server), or resolves to a response. A response has a status, its body as
  text, and its body as read by \<^verbatim>\<open>response.json()\<close>: \<open>Inl m\<close> when reading it throws an
  error with message \<open>m\<close>. For the list request the JSON is the array of transactions; for
  the creation and removal requests it is the \<^verbatim>\<open>error\<close> property of the error object,
  if it has one.
\<close>

datatype 'a fetch_result = Rejected string | Responded 'a

record 'j response =
  status :: nat
  body_text :: string
  body_json :: "string + 'j"

definition ok :: "('j, 'z) response_scheme \<Rightarrow> bool" where
  "ok r = (200 \<le> status r \<and> status r \<le> 299)"

text \<open>
  The body of the creation request, as \<^verbatim>\<open>JSON.stringify\<close> writes the object
  \<^verbatim>\<open>{ description, amount, type, userId }\<close>.
\<close>

record new_transaction =
  nt_description :: "code_unit list"
  nt_amount :: amount_json
  nt_type :: string
  nt_userId :: string

datatype request =
    GET_transactions string
  | POST_transactions new_transaction
  | DELETE_transactions string

text \<open>
  The remote API as the client sees it: each request is answered from the state of the
  server, which it may change.
\<close>

record 'sv api =
  api_get :: "string \<Rightarrow> 'sv \<Rightarrow> transaction list response fetch_result \<times> 'sv"
  api_post :: "new_transaction \<Rightarrow> 'sv \<Rightarrow> string option response fetch_result \<times> 'sv"
  api_delete :: "string \<Rightarrow> 'sv \<Rightarrow> string option response fetch_result \<times> 'sv"

text \<open>The component together with the server and the log of the requests sent.\<close>

record 'sv world =
  ui :: state
  server :: 'sv
  requests :: "request list"

definition API_BASE_URL :: string where
  "API_BASE_URL = ''http://localhost:5000/api''"

section \<open>fetchTransactions\<close>

text \<open>
  The \<^verbatim>\<open>try\<close> block once the fetch has settled: \<open>Inl m\<close> is an error thrown with
  message \<open>m\<close>, \<open>Inr data\<close> the list that \<^verbatim>\<open>setTransactions\<close> receives.
\<close>

definition fetchTransactions_try ::
  "transaction list response fetch_result \<Rightarrow> string + transaction list" where
  "fetchTransactions_try r =
     (case r of
        Rejected m \<Rightarrow> Inl m
      | Responded response \<Rightarrow>
          if \<not> ok response then
            Inl (''HTTP error! Status: '' @ showNat (status response) @ ''. Message: ''
                 @ (if body_text response \<noteq> [] then body_text response
                    else ''No message provided.''))
          else
            (case body_json response of Inl m \<Rightarrow> Inl m | Inr data \<Rightarrow> Inr data))"

definition fetchTransactions_catch :: "string \<Rightarrow> state \<Rightarrow> state" where
  "fetchTransactions_catch error_message s =
     (let userMessage =
            (if str_includes error_message ''Failed to fetch''
                \<or> str_includes error_message ''NetworkError''
             then ''Could not connect to the backend server at '' @ API_BASE_URL
                  @ ''. Please ensure your backend (server.js) is running in a separate terminal.''
             else ''Error fetching data: '' @ error_message)
      in s\<lparr>message := userMessage, showMessage := True, transactions := []\<rparr>)"

text \<open>Everything after the \<^verbatim>\<open>await fetch\<close>: try, catch and finally.\<close>

definition fetchTransactions_settle ::
  "transaction list response fetch_result \<Rightarrow> state \<Rightarrow> state" where
  "fetchTransactions_settle r s =
     (case fetchTransactions_try r of
        Inl m \<Rightarrow> fetchTransactions_catch m s
      | Inr data \<Rightarrow> s\<lparr>transactions := data\<rparr>)\<lparr>loading := False\<rparr>"

definition fetchTransactions :: "'sv api \<Rightarrow> 'sv world \<Rightarrow> 'sv world" where
  "fetchTransactions net w =
     (let s = (ui w)\<lparr>loading := True\<rparr>;
          (r, sv) = api_get net (userId (ui w)) (server w)
      in \<lparr>ui = fetchTransactions_settle r s, server = sv,
          requests = requests w @ [GET_transactions (userId (ui w))]\<rparr>)"

section \<open>handleAddTransaction and handleDeleteTransaction\<close>

text \<open>
  The two local checks of \<^verbatim>\<open>handleAddTransaction\<close>: \<open>Inl m\<close> is the message of the
  check that fails, \<open>Inr body\<close> the body of the creation request,
  \<^verbatim>\<open>JSON.stringify({ description: description.trim(), amount: numAmount, type, userId })\<close>.
  \<^verbatim>\<open>!amount\<close> holds for the empty string only.
\<close>

definition handleAddTransaction_validate :: "state \<Rightarrow> string + new_transaction" where
  "handleAddTransaction_validate s =
     (if trim (description s) = [] \<or> amount s = [] then
        Inl ''Please enter both description and amount.''
      else
        let numAmount = parseFloat (amount s)
        in if isNaN numAmount \<or> le_zero numAmount then
             Inl ''Please enter a valid positive amount.''
           else
             Inr \<lparr>nt_description = trim (description s), nt_amount = jsonNumber numAmount,
                  nt_type = type s, nt_userId = userId s\<rparr>)"

text \<open>
  The response check shared by the creation and the removal request:
  \<^verbatim>\<open>errorData.error || `HTTP error! status: ${response.status}`\<close> is thrown for a
  response that is not ok. \<open>Inl m\<close> is the error thrown, \<open>Inr ()\<close> means the request
  succeeded.
\<close>

definition mutation_try :: "string option response fetch_result \<Rightarrow> string + unit" where
  "mutation_try r =
     (case r of
        Rejected m \<Rightarrow> Inl m
      | Responded response \<Rightarrow>
          if \<not> ok response then
            (case body_json response of
               Inl m \<Rightarrow> Inl m
             | Inr errorData \<Rightarrow>
                 (case errorData of
                    Some e \<Rightarrow>
                      if e \<noteq> [] then Inl e
                      else Inl (''HTTP error! status: '' @ showNat (status response))
                  | None \<Rightarrow> Inl (''HTTP error! status: '' @ showNat (status response))))
          else Inr ())"

definition handleAddTransaction_catch :: "string \<Rightarrow> state \<Rightarrow> state" where
  "handleAddTransaction_catch error_message s =
     (let userMessage =
            (if str_includes error_message ''Failed to fetch''
                \<or> str_includes error_message ''NetworkError''
             then ''Could not connect to the backend server at '' @ API_BASE_URL
                  @ ''. Please ensure your backend (server.js) is running.''
             else ''Error adding transaction: '' @ error_message)
      in s\<lparr>message := userMessage, showMessage := True\<rparr>)"

definition handleAddTransaction_finish :: "state \<Rightarrow> state" where
  "handleAddTransaction_finish s =
     s\<lparr>description := [], amount := [], type := ''expense'',
       message := ''Transaction added successfully!'', showMessage := True,
       loading := False\<rparr>"

definition handleAddTransaction :: "'sv api \<Rightarrow> 'sv world \<Rightarrow> 'sv world" where
  "handleAddTransaction net w =
     (case handleAddTransaction_validate (ui w) of
        Inl m \<Rightarrow> w\<lparr>ui := (ui w)\<lparr>message := m, showMessage := True\<rparr>\<rparr>
      | Inr body \<Rightarrow>
          let s = (ui w)\<lparr>loading := True\<rparr>;
              (r, sv) = api_post net body (server w);
              w1 = \<lparr>ui = s, server = sv, requests = requests w @ [POST_transactions body]\<rparr>
          in (case mutation_try r of
                Inl m \<Rightarrow> w1\<lparr>ui := (handleAddTransaction_catch m s)\<lparr>loading := False\<rparr>\<rparr>
              | Inr _ \<Rightarrow>
                  let w2 = fetchTransactions net w1
                  in w2\<lparr>ui := handleAddTransaction_finish (ui w2)\<rparr>))"

definition handleDeleteTransaction_catch :: "string \<Rightarrow> state \<Rightarrow> state" where
  "handleDeleteTransaction_catch error_message s =
     (let userMessage =
            (if str_includes error_message ''Failed to fetch''
                \<or> str_includes error_message ''NetworkError''
             then ''Could not connect to the backend server at '' @ API_BASE_URL
                  @ ''. Please ensure your backend (server.js) is running.''
             else ''Error deleting transaction: '' @ error_message)
      in s\<lparr>message := userMessage, showMessage := True\<rparr>)"

definition handleDeleteTransaction_finish :: "state \<Rightarrow> state" where
  "handleDeleteTransaction_finish s =
     s\<lparr>message := ''Transaction deleted successfully!'', showMessage := True,
       loading := False\<rparr>"

definition handleDeleteTransaction :: "'sv api \<Rightarrow> string \<Rightarrow> 'sv world \<Rightarrow> 'sv world" where
  "handleDeleteTransaction net id' w =
     (let s = (ui w)\<lparr>loading := True\<rparr>;
          (r, sv) = api_delete net id' (server w);
          w1 = \<lparr>ui = s, server = sv, requests = requests w @ [DELETE_transactions id']\<rparr>
      in case mutation_try r of
           Inl m \<Rightarrow> w1\<lparr>ui := (handleDeleteTransaction_catch m s)\<lparr>loading := False\<rparr>\<rparr>
         | Inr _ \<Rightarrow>
             let w2 = fetchTransactions net w1
             in w2\<lparr>ui := handleDeleteTransaction_finish (ui w2)\<rparr>)"

text \<open>
  An amount that the second check of \<^verbatim>\<open>handleAddTransaction\<close> lets through:
  \<^verbatim>\<open>parseFloat\<close> reads a number from it and the number is positive.
\<close>

definition positiveAmount :: "code_unit list \<Rightarrow> bool" where
  "positiveAmount a = (\<not> isNaN (parseFloat a) \<and> \<not> le_zero (parseFloat a))"

text \<open>The two marker texts by which the handlers recognise a transport failure.\<close>

definition transportMarker :: "string \<Rightarrow> bool" where
  "transportMarker m = (str_includes m ''Failed to fetch'' \<or> str_includes m ''NetworkError'')"

text \<open>
  A request that fails: the fetch rejects, or the response is not ok (its status is
  outside 200 to 299).
\<close>

definition notOk :: "'j response fetch_result \<Rightarrow> bool" where
  "notOk r = (case r of Rejected m \<Rightarrow> True | Responded response \<Rightarrow> \<not> ok response)"

section \<open>The component as a transition system\<close>

text \<open>
  Between two \<^verbatim>\<open>await\<close>s a handler runs without interruption; while it waits for a
  response other events of the page can happen. The body of a response is taken to
  arrive with the response. A configuration is the state together
  with the requests that are in flight, each with the code that waits for it:
  \<^verbatim>\<open>fetchTransactions\<close> called from the mount effect, from
  \<^verbatim>\<open>handleAddTransaction\<close> or from \<^verbatim>\<open>handleDeleteTransaction\<close>, or one of the
  two handlers waiting for its own request.
\<close>

datatype continuation = OnMount | AfterAdd | AfterDelete

datatype task = AwaitList continuation | AwaitPost | AwaitDelete

record config =
  view :: state
  inflight :: "task list"

text \<open>
  The events: the \<^verbatim>\<open>onChange\<close> of the three inputs, closing the message box, a click
  on one of the two kinds of button, and the settling of the request in flight at a
  position. A button with \<^verbatim>\<open>disabled={loading}\<close> gives no click while
  \<^verbatim>\<open>loading\<close> holds, and there is a delete button for the listed transactions only.
\<close>

datatype event =
    ChangeDescription "code_unit list"
  | ChangeAmount "code_unit list"
  | ChangeType string
  | CloseMessage
  | ClickAdd
  | ClickDelete string
  | ListSettled nat "transaction list response fetch_result"
  | MutationSettled nat "string option response fetch_result"

definition removeAt :: "nat \<Rightarrow> 'a list \<Rightarrow> 'a list" where
  "removeAt i xs = take i xs @ drop (Suc i) xs"

fun resume :: "continuation \<Rightarrow> state \<Rightarrow> state" where
  "resume OnMount s = s"
| "resume AfterAdd s = handleAddTransaction_finish s"
| "resume AfterDelete s = handleDeleteTransaction_finish s"

fun step :: "event \<Rightarrow> config \<Rightarrow> config option" where
  "step (ChangeDescription v) c = Some (c\<lparr>view := (view c)\<lparr>description := v\<rparr>\<rparr>)"
| "step (ChangeAmount v) c = Some (c\<lparr>view := (view c)\<lparr>amount := v\<rparr>\<rparr>)"
| "step (ChangeType v) c = Some (c\<lparr>view := (view c)\<lparr>type := v\<rparr>\<rparr>)"
| "step CloseMessage c = Some (c\<lparr>view := (view c)\<lparr>showMessage := False\<rparr>\<rparr>)"
| "step ClickAdd c =
     (if loading (view c) then None
      else
        (case handleAddTransaction_validate (view c) of
           Inl m \<Rightarrow> Some (c\<lparr>view := (view c)\<lparr>message := m, showMessage := True\<rparr>\<rparr>)
         | Inr body \<Rightarrow>
             Some \<lparr>view = (view c)\<lparr>loading := True\<rparr>, inflight = inflight c @ [AwaitPost]\<rparr>))"
| "step (ClickDelete id') c =
     (if loading (view c) \<or> id' \<notin> set (map tx_id (transactions (view c))) then None
      else Some \<lparr>view = (view c)\<lparr>loading := True\<rparr>, inflight = inflight c @ [AwaitDelete]\<rparr>)"
| "step (MutationSettled i r) c =
     (if i < length (inflight c) then
        (case inflight c ! i of
           AwaitList k \<Rightarrow> None
         | AwaitPost \<Rightarrow>
             (case mutation_try r of
                Inl m \<Rightarrow>
                  Some \<lparr>view = (handleAddTransaction_catch m (view c))\<lparr>loading := False\<rparr>,
                        inflight = removeAt i (inflight c)\<rparr>
              | Inr u \<Rightarrow>
                  Some \<lparr>view = (view c)\<lparr>loading := True\<rparr>,
                        inflight = (inflight c)[i := AwaitList AfterAdd]\<rparr>)
         | AwaitDelete \<Rightarrow>
             (case mutation_try r of
                Inl m \<Rightarrow>
                  Some \<lparr>view = (handleDeleteTransaction_catch m (view c))\<lparr>loading := False\<rparr>,
                        inflight = removeAt i (inflight c)\<rparr>
              | Inr u \<Rightarrow>
                  Some \<lparr>view = (view c)\<lparr>loading := True\<rparr>,
                        inflight = (inflight c)[i := AwaitList AfterDelete]\<rparr>))
      else None)"
| "step (ListSettled i r) c =
     (if i < length (inflight c) then
        (case inflight c ! i of
           AwaitList k \<Rightarrow>
             Some \<lparr>view = resume k (fetchTransactions_settle r (view c)),
                   inflight = removeAt i (inflight c)\<rparr>
         | AwaitPost \<Rightarrow> None
         | AwaitDelete \<Rightarrow> None)
      else None)"

fun run :: "event list \<Rightarrow> config \<Rightarrow> config option" where
  "run [] c = Some c"
| "run (e # es) c = (case step e c of None \<Rightarrow> None | Some c' \<Rightarrow> run es c')"

text \<open>
  The mount effect \<^verbatim>\<open>if (userId) { fetchTransactions(); }\<close>: the synchronous part
  of \<^verbatim>\<open>fetchTransactions\<close> sets \<^verbatim>\<open>loading\<close> and sends the list request.
\<close>

definition mountEffect :: "config \<Rightarrow> config" where
  "mountEffect c =
     (if userId (view c) \<noteq> []
      then \<lparr>view = (view c)\<lparr>loading := True\<rparr>, inflight = inflight c @ [AwaitList OnMount]\<rparr>
      else c)"

text \<open>
  The first render and the mount effect. \<^verbatim>\<open>main.jsx\<close> renders \<^verbatim>\<open>App\<close> inside
  \<^verbatim>\<open>React.StrictMode\<close> with \<^verbatim>\<open>createRoot\<close>: a production build runs the
  mount effect once; a development build runs it, runs its cleanup (the effect returns
  none) and runs it again, on the same state. The identifier is read or made by the
  initialiser of the state; a second run of the initialiser, which a development build
  makes, finds the identifier that the first one stored.
\<close>

datatype build = Production | Development

definition mount :: "build \<Rightarrow> nat \<Rightarrow> string \<Rightarrow> storage \<Rightarrow> config" where
  "mount b now random36 localStorage =
     (let c = \<lparr>view = initialState (fst (initUserId now random36 localStorage)), inflight = []\<rparr>
      in case b of
           Production \<Rightarrow> mountEffect c
         | Development \<Rightarrow> mountEffect (mountEffect c))"

text \<open>
  The state machine of an operation: either nothing is in flight and the controls are
  enabled, or exactly one request is in flight and \<^verbatim>\<open>loading\<close> disables them.
\<close>

definition idleOrPending :: "config \<Rightarrow> bool" where
  "idleOrPending c =
     (length (inflight c) \<le> 1 \<and> (loading (view c) \<longleftrightarrow> inflight c \<noteq> []))"

definition mutating :: "task \<Rightarrow> bool" where
  "mutating t = (t = AwaitPost \<or> t = AwaitDelete)"

section \<open>The remote API\<close>

text \<open>
  Modelled from the spec: the remote transaction storage API, whose code is not among the
  sources of the view-model. Following sections 3 and 6 of the specification, the store
  keeps the transactions, assigns the id of a new transaction, lists the transactions of
  a user id, and removes a transaction by id. A transaction has a description that is not
  blank after trimming, a positive amount and the type income or expense: a creation
  request with such a body is answered with the created transaction, any other one (so
  one whose amount is \<^verbatim>\<open>null\<close>) with an error body.
\<close>

record store =
  stored :: "transaction list"
  nextId :: nat
  clock :: nat

definition okResponse :: "'j \<Rightarrow> 'j response" where
  "okResponse j = \<lparr>status = 200, body_text = [], body_json = Inr j\<rparr>"

definition spec_get :: "string \<Rightarrow> store \<Rightarrow> transaction list response fetch_result \<times> store" where
  "spec_get uid sv = (Responded (okResponse (filter (\<lambda>t. tx_userId t = uid) (stored sv))), sv)"

text \<open>
  Modelled from the spec: the invariants of a transaction (section 3), checked on the body
  of a creation request.
\<close>

definition validBody :: "new_transaction \<Rightarrow> bool" where
  "validBody body =
     (trim (nt_description body) \<noteq> []
      \<and> (case nt_amount body of ANum r \<Rightarrow> 0 < r | _ \<Rightarrow> False)
      \<and> (nt_type body = ''income'' \<or> nt_type body = ''expense''))"

definition spec_post :: "new_transaction \<Rightarrow> store \<Rightarrow> string option response fetch_result \<times> store" where
  "spec_post body sv =
     (if validBody body then
        (Responded \<lparr>status = 201, body_text = [], body_json = Inr None\<rparr>,
         sv\<lparr>stored := stored sv @
               [\<lparr>tx_id = showNat (nextId sv), tx_description = nt_description body,
                 tx_amount = nt_amount body, tx_type = nt_type body, tx_timestamp = clock sv,
                 tx_userId = nt_userId body\<rparr>],
            nextId := Suc (nextId sv)\<rparr>)
      else
        (Responded \<lparr>status = 400, body_text = [],
                     body_json = Inr (Some ''Invalid transaction'')\<rparr>, sv))"

definition spec_delete :: "string \<Rightarrow> store \<Rightarrow> string option response fetch_result \<times> store" where
  "spec_delete id' sv =
     (Responded \<lparr>status = 200, body_text = [], body_json = Inr None\<rparr>,
      sv\<lparr>stored := filter (\<lambda>t. tx_id t \<noteq> id') (stored sv)\<rparr>)"

definition specApi :: "store api" where
  "specApi = \<lparr>api_get = spec_get, api_post = spec_post, api_delete = spec_delete\<rparr>"

section \<open>Concrete inputs\<close>

definition formState :: "code_unit list \<Rightarrow> code_unit list \<Rightarrow> string \<Rightarrow> state" where
  "formState d a t =
     (initialState ''user_1700000000000_k3x9q2a'')
       \<lparr>description := d, amount := a, type := t, loading := False\<rparr>"

definition formWorld ::
  "code_unit list \<Rightarrow> code_unit list \<Rightarrow> string \<Rightarrow> 'sv \<Rightarrow> 'sv world" where
  "formWorld d a t sv = \<lparr>ui = formState d a t, server = sv, requests = []\<rparr>"

definition constApi ::
  "transaction list response fetch_result \<Rightarrow> string option response fetch_result
    \<Rightarrow> string option response fetch_result \<Rightarrow> unit api" where
  "constApi g p d =
     \<lparr>api_get = (\<lambda>_ sv. (g, sv)), api_post = (\<lambda>_ sv. (p, sv)), api_delete = (\<lambda>_ sv. (d, sv))\<rparr>"

definition offline :: "unit api" where
  "offline =
     constApi (Rejected ''Failed to fetch'') (Rejected ''Failed to fetch'')
       (Rejected ''Failed to fetch'')"

definition errorResponse :: "nat \<Rightarrow> string \<Rightarrow> 'j response" where
  "errorResponse st txt = \<lparr>status = st, body_text = txt, body_json = Inl ''Unexpected token''\<rparr>"

definition created :: "string option response" where
  "created = \<lparr>status = 201, body_text = [], body_json = Inr None\<rparr>"

definition dbDown :: "transaction list response" where
  \<open>dbDown = \<lparr>status = 500, body_text = ''{"error":"db down"}'', body_json = Inl ''not a list of transactions''\<rparr>\<close>

definition failedToFetch :: "transaction list response" where
  "failedToFetch =
     \<lparr>status = 500, body_text = ''Failed to fetch transactions'', body_json = Inl ''not a list of transactions''\<rparr>"

definition listed :: "transaction list \<Rightarrow> transaction list response" where
  "listed ts = \<lparr>status = 200, body_text = [], body_json = Inr ts\<rparr>"

definition tx1 :: transaction where
  "tx1 = \<lparr>tx_id = ''1'', tx_description = utf16 ''Scholarship'', tx_amount = ANum 100,
          tx_type = ''income'', tx_timestamp = 0, tx_userId = ''user_1700000000000_k3x9q2a''\<rparr>"

definition tx2 :: transaction where
  "tx2 = \<lparr>tx_id = ''2'', tx_description = utf16 ''Books'', tx_amount = AStr (utf16 ''40.00''),
          tx_type = ''expense'', tx_timestamp = 1, tx_userId = ''user_1700000000000_k3x9q2a''\<rparr>"

definition loadedWorld :: "code_unit list \<Rightarrow> code_unit list \<Rightarrow> string \<Rightarrow> unit world" where
  "loadedWorld d a t =
     \<lparr>ui = (formState d a t)\<lparr>transactions := [tx1, tx2]\<rparr>, server = (), requests = []\<rparr>"

definition loadFailed :: "unit api" where
  "loadFailed =
     constApi (Rejected ''Load failed'') (Rejected ''Load failed'') (Rejected ''Load failed'')"

definition upstreamDown :: "unit api" where
  "upstreamDown =
     constApi (Responded (listed []))
       (Responded \<lparr>status = 502, body_text = [],
                    body_json = Inr (Some ''NetworkError: upstream unavailable'')\<rparr>)
       (Responded \<lparr>status = 502, body_text = [],
                    body_json = Inr (Some ''NetworkError: upstream unavailable'')\<rparr>)"

definition accepting :: "unit api" where
  "accepting =
     constApi (Responded (listed [tx1, tx2])) (Responded created) (Responded created)"

definition refreshFails :: "unit api" where
  "refreshFails = constApi (Responded dbDown) (Responded created) (Responded created)"

definition rejecting :: "unit api" where
  "rejecting =
     constApi (Responded (listed [])) (Responded (errorResponse 500 ''Internal Server Error''))
       (Responded (errorResponse 404 ''Not Found''))"

definition rent500 :: new_transaction where
  "rent500 =
     \<lparr>nt_description = utf16 ''Rent'', nt_amount = ANum 500, nt_type = ''expense'',
      nt_userId = ''user_1700000000000_k3x9q2a''\<rparr>"

definition tx3 :: transaction where
  "tx3 = \<lparr>tx_id = ''3'', tx_description = utf16 ''Gift'', tx_amount = ANum 7,
          tx_type = ''income'', tx_timestamp = 2, tx_userId = ''user_1600000000000_zzzzzzz''\<rparr>"

definition tx4 :: transaction where
  "tx4 = \<lparr>tx_id = ''4'', tx_description = utf16 ''Rent'', tx_amount = ANum 500,
          tx_type = ''expense'', tx_timestamp = 3, tx_userId = ''user_1700000000000_k3x9q2a''\<rparr>"

definition store0 :: store where
  "store0 = \<lparr>stored = [tx1, tx3, tx2], nextId = 4, clock = 3\<rparr>"

definition returning :: storage where
  "returning = [''financeAppUserId'' \<mapsto> ''user_1700000000000_k3x9q2a'']"

definition session :: "event list" where
  "session =
     [ListSettled 0 (Responded (listed [tx1, tx2])), ChangeDescription (utf16 ''Rent''),
      ChangeAmount (utf16 ''500''), ClickAdd]"

definition loaded :: config where
  "loaded =
     \<lparr>view = (initialState ''user_1700000000000_k3x9q2a'')
              \<lparr>transactions := [tx1, tx2], loading := False\<rparr>,
      inflight = []\<rparr>"

definition pendingAdd :: config where
  "pendingAdd =
     \<lparr>view = (ui (loadedWorld (utf16 ''Rent'') (utf16 ''500'') ''expense''))\<lparr>loading := True\<rparr>,
      inflight = [AwaitPost]\<rparr>"



definition refreshOffline :: "unit api" where
  "refreshOffline =
     constApi (Rejected ''Failed to fetch'') (Responded created) (Responded created)"

definition overlapping :: "event list" where
  "overlapping =
     [ListSettled 0 (Responded (listed [tx1, tx2])), ChangeDescription (utf16 ''Rent''),
      ChangeAmount (utf16 ''500''), ClickAdd, ListSettled 0 (Responded (listed [tx1, tx2])),
      ClickAdd]"

section \<open>Facts about rounding\<close>

lemma powi_Suc: "(2::real) powi (k + 1) = 2 * 2 powi k"
  by (simp add: power_int_add)

lemma binade_bounds:
  "0 < a \<Longrightarrow> 2 powi (binade a) \<le> a \<and> a < 2 powi (binade a + 1)"
proof (induction a rule: binade.induct)
  case (1 a)
  show ?case
  proof (cases "2 \<le> a")
    case True
    with 1 have b: "binade a = binade (a / 2) + 1"
      by (subst binade.simps) simp
    from 1(1) [OF _ True] 1(3) have "2 powi (binade (a / 2)) \<le> a / 2 \<and> a / 2 < 2 powi (binade (a / 2) + 1)"
      by simp
    then show ?thesis
      unfolding b powi_Suc by simp
  next
    case False
    show ?thesis
    proof (cases "a < 1")
      case True
      with 1 False have b: "binade a = binade (2 * a) - 1"
        by (subst binade.simps) simp
      from 1(2) [OF _ False True] 1(3)
      have i: "2 powi (binade (2 * a)) \<le> 2 * a \<and> 2 * a < 2 powi (binade (2 * a) + 1)"
        by simp
      have "(2::real) powi (binade (2 * a)) = 2 * 2 powi (binade (2 * a) - 1)"
        using powi_Suc [of "binade (2 * a) - 1"] by simp
      with i show ?thesis
        unfolding b by (simp add: powi_Suc)
    next
      case False
      with 1 \<open>\<not> 2 \<le> a\<close> have "binade a = 0"
        by (subst binade.simps) simp
      with False \<open>\<not> 2 \<le> a\<close> show ?thesis
        by simp
    qed
  qed
qed

lemma powi_less_cancel:
  assumes "(2::real) powi m < 2 powi n"
  shows "m < n"
proof (rule ccontr)
  assume "\<not> m < n"
  then have "n \<le> m" by simp
  then have "(2::real) powi n \<le> 2 powi m"
    by (rule power_int_increasing) simp
  with assms show False by simp
qed

lemma binade_unique:
  assumes "0 < a" and "2 powi k \<le> a" and "a < 2 powi (k + 1)"
  shows "binade a = k"
proof -
  from binade_bounds [OF assms(1)]
  have l: "2 powi (binade a) \<le> a" and u: "a < 2 powi (binade a + 1)"
    by simp_all
  from l assms(3) have "(2::real) powi (binade a) < 2 powi (k + 1)"
    by simp
  then have "binade a < k + 1"
    by (rule powi_less_cancel)
  moreover from assms(2) u have "(2::real) powi k < 2 powi (binade a + 1)"
    by simp
  then have "k < binade a + 1"
    by (rule powi_less_cancel)
  ultimately show ?thesis by simp
qed

lemma roundHalfEven_of_int: "roundHalfEven (of_int n) = n"
  by (simp add: roundHalfEven_def)


lemma roundToDouble_normal:
  assumes "2 powi (- 1022) \<le> \<bar>x\<bar>" and "\<bar>x\<bar> < 2 powi 1024"
    and "2 powi k \<le> \<bar>x\<bar>" and "\<bar>x\<bar> < 2 powi (k + 1)"
    and "roundHalfEven (\<bar>x\<bar> / 2 powi (k - 52)) = n"
    and "of_int n * 2 powi (k - 52) < (2::real) powi 1024"
  shows "roundToDouble x
       = Num (if x < 0 then - (of_int n * 2 powi (k - 52)) else of_int n * 2 powi (k - 52))"
proof -
  have "0 < (2::real) powi (- 1022)"
    by (rule zero_less_power_int) simp
  with assms(1) have p: "0 < \<bar>x\<bar>"
    by linarith
  have b: "binade \<bar>x\<bar> = k"
    using p assms(3,4) by (rule binade_unique)
  from assms(1) have n: "\<not> \<bar>x\<bar> < 2 powi (- 1022)"
    by simp
  from assms(2) have h: "\<not> 2 powi 1024 \<le> \<bar>x\<bar>"
    by simp
  from assms(6) have r: "\<not> (2::real) powi 1024 \<le> of_int n * 2 powi (k - 52)"
    by simp
  show ?thesis
    unfolding roundToDouble_def Let_def b if_not_P [OF n] assms(5)
    using h r by (simp only: if_False simp_thms)
qed

lemma roundToDouble_subnormal:
  assumes "\<bar>x\<bar> < 2 powi (- 1022)"
    and "roundHalfEven (\<bar>x\<bar> / 2 powi (- 1074)) = n"
    and "of_int n * 2 powi (- 1074) < (2::real) powi 1024"
  shows "roundToDouble x
       = Num (if x < 0 then - (of_int n * 2 powi (- 1074)) else of_int n * 2 powi (- 1074))"
proof -
  have "(2::real) powi (- 1022) \<le> 2 powi 1024"
    by (rule power_int_increasing) simp_all
  with assms(1) have h: "\<not> 2 powi 1024 \<le> \<bar>x\<bar>"
    by linarith
  from assms(3) have r: "\<not> (2::real) powi 1024 \<le> of_int n * 2 powi (- 1074)"
    by simp
  show ?thesis
    unfolding roundToDouble_def Let_def if_P [OF assms(1)] assms(2)
    using h r by (simp only: if_False simp_thms)
qed

lemma roundToDouble_overflow:
  assumes "2 powi 1024 \<le> \<bar>x\<bar>"
  shows "roundToDouble x = (if x < 0 then NegInf else PosInf)"
  using assms by (simp add: roundToDouble_def Let_def)


lemma powi_quotient:
  assumes "j \<le> i"
  shows "(2::real) powi i / 2 powi j = of_int (2 ^ nat (i - j))"
proof -
  have "(2::real) powi i / 2 powi j = 2 powi (i - j)"
    by (simp add: power_int_diff)
  also from assms have "\<dots> = 2 ^ nat (i - j)"
    by (simp add: power_int_def)
  finally show ?thesis by simp
qed

lemma roundToDouble_exact:
  fixes m e :: int
  assumes "\<bar>m\<bar> < 2 ^ 53" and "- 1074 \<le> e" and "e \<le> 971"
  shows "roundToDouble (of_int m * 2 powi e) = Num (of_int m * 2 powi e)"
proof -
  define x :: real where "x = of_int m * 2 powi e"
  define a :: real where "a = of_int \<bar>m\<bar> * 2 powi e"
  have pe: "0 < (2::real) powi e"
    by (rule zero_less_power_int) simp
  have ax: "\<bar>x\<bar> = a"
    using pe by (simp add: x_def a_def abs_mult)
  have sg: "(if x < 0 then - a else a) = x"
    using ax by auto
  have "of_int \<bar>m\<bar> < (2::real) ^ 53"
    using assms(1) by (metis of_int_less_iff of_int_numeral of_int_power)
  then have "a < 2 ^ 53 * 2 powi e"
    unfolding a_def using pe by simp
  also have "\<dots> = 2 powi (53 + e)"
    by (simp add: power_int_add)
  finally have up: "a < 2 powi (53 + e)" .
  have "(2::real) powi (53 + e) \<le> 2 powi 1024"
    using assms(3) by (intro power_int_increasing) simp_all
  with up have lt: "a < 2 powi 1024"
    by linarith
  show ?thesis
  proof (cases "a < 2 powi (- 1022)")
    case True
    have q: "a / 2 powi (- 1074) = of_int (\<bar>m\<bar> * 2 ^ nat (e + 1074))"
      unfolding a_def using powi_quotient [of "- 1074" e] assms(2) by simp
    have n: "roundHalfEven (\<bar>x\<bar> / 2 powi (- 1074)) = \<bar>m\<bar> * 2 ^ nat (e + 1074)"
      unfolding ax q by (rule roundHalfEven_of_int)
    have restore: "of_int (\<bar>m\<bar> * 2 ^ nat (e + 1074)) * 2 powi (- 1074) = a"
      using q by (simp add: field_simps)
    from True have t: "\<bar>x\<bar> < 2 powi (- 1022)"
      by (simp add: ax)
    from lt have l: "of_int (\<bar>m\<bar> * 2 ^ nat (e + 1074)) * 2 powi (- 1074) < (2::real) powi 1024"
      unfolding restore .
    have "roundToDouble x = Num (if x < 0 then - a else a)"
      using roundToDouble_subnormal [OF t n l] unfolding restore .
    then show ?thesis
      unfolding sg unfolding x_def .
  next
    case False
    then have lo: "2 powi (- 1022) \<le> a"
      by simp
    have "0 < (2::real) powi (- 1022)"
      by (rule zero_less_power_int) simp
    with lo have pos: "0 < a"
      by linarith
    define k where "k = binade a"
    from binade_bounds [OF pos] have kl: "2 powi k \<le> a" and ku: "a < 2 powi (k + 1)"
      by (simp_all add: k_def)
    from kl up have "(2::real) powi k < 2 powi (53 + e)"
      by linarith
    then have "k < 53 + e"
      by (rule powi_less_cancel)
    then have ke: "k - 52 \<le> e"
      by simp
    have "a / 2 powi (k - 52) = of_int \<bar>m\<bar> * (2 powi e / 2 powi (k - 52))"
      by (simp add: a_def)
    also have "\<dots> = of_int \<bar>m\<bar> * of_int (2 ^ nat (e - (k - 52)))"
      by (simp only: powi_quotient [OF ke])
    finally have q: "a / 2 powi (k - 52) = of_int (\<bar>m\<bar> * 2 ^ nat (e - (k - 52)))"
      by simp
    have n: "roundHalfEven (\<bar>x\<bar> / 2 powi (k - 52)) = \<bar>m\<bar> * 2 ^ nat (e - (k - 52))"
      unfolding ax q by (rule roundHalfEven_of_int)
    have "(2::real) powi (k - 52) \<noteq> 0"
      by simp
    with q have restore: "of_int (\<bar>m\<bar> * 2 ^ nat (e - (k - 52))) * 2 powi (k - 52) = a"
      by (simp add: field_simps)
    from lt have l: "of_int (\<bar>m\<bar> * 2 ^ nat (e - (k - 52))) * 2 powi (k - 52) < (2::real) powi 1024"
      unfolding restore .
    have "roundToDouble x = Num (if x < 0 then - a else a)"
      using roundToDouble_normal [of x k, unfolded ax, OF lo lt kl ku n [unfolded ax] l]
      unfolding restore .
    then show ?thesis
      unfolding sg unfolding x_def .
  qed
qed

lemma roundToDouble_int:
  assumes "\<bar>m\<bar> < 2 ^ 53"
  shows "roundToDouble (of_int m) = Num (of_int m)"
  using roundToDouble_exact [OF assms, of 0] by simp


lemma roundToDouble_small:
  "roundToDouble 0 = Num 0" "roundToDouble 1 = Num 1" "roundToDouble 5 = Num 5"
  "roundToDouble 7 = Num 7" "roundToDouble 40 = Num 40" "roundToDouble 60 = Num 60"
  "roundToDouble 100 = Num 100" "roundToDouble 500 = Num 500"
  "roundToDouble (10 ^ 16) = Num (10 ^ 16)"
  using roundToDouble_int [of 0] roundToDouble_int [of 1] roundToDouble_int [of 5]
    roundToDouble_int [of 7] roundToDouble_int [of 40] roundToDouble_int [of 60]
    roundToDouble_int [of 100] roundToDouble_int [of 500]
    roundToDouble_exact [of "5 ^ 16" 16]
  by simp_all

text \<open>A value below half of the least positive double is rounded to zero.\<close>

lemma roundToDouble_tiny: "roundToDouble (1 / 10 ^ 324) = Num 0"
proof -
  have a: "\<bar>1 / 10 ^ 324 :: real\<bar> < 2 powi (- 1022)"
    by (simp add: power_int_minus field_simps)
  have h: "(1 / 10 ^ 324 :: real) / 2 powi (- 1074) < 1 / 2"
    by (simp add: power_int_minus field_simps)
  moreover have "0 \<le> (1 / 10 ^ 324 :: real) / 2 powi (- 1074)"
    by simp
  ultimately have f: "\<lfloor>(1 / 10 ^ 324 :: real) / 2 powi (- 1074)\<rfloor> = 0"
    by linarith
  have n: "roundHalfEven (\<bar>1 / 10 ^ 324 :: real\<bar> / 2 powi (- 1074)) = 0"
    unfolding roundHalfEven_def Let_def using f h by simp
  have l: "of_int 0 * 2 powi (- 1074) < (2::real) powi 1024"
    by simp
  from roundToDouble_subnormal [OF a n l] show ?thesis
    by simp
qed

text \<open>A value above the greatest double is rounded to infinity.\<close>

lemma roundToDouble_huge: "roundToDouble (10 ^ 309) = PosInf"
proof -
  have "(2::real) powi 1024 \<le> \<bar>10 ^ 309\<bar>"
    by simp
  from roundToDouble_overflow [OF this] show ?thesis
    by simp
qed


section \<open>Facts about strings and parseFloat\<close>

lemma digitChar_digit: "d < 10 \<Longrightarrow> digitChar d \<in> set ''0123456789''"
  unfolding digitChar_def by (rule nth_mem) simp

lemma showNat_digits: "set (showNat n) \<subseteq> set ''0123456789''"
proof (induction n rule: showNat.induct)
  case (1 n)
  show ?case
  proof (cases "n < 10")
    case True
    then show ?thesis using digitChar_digit [of n] by (subst showNat.simps) simp
  next
    case False
    have "n mod 10 < 10" by simp
    then have "digitChar (n mod 10) \<in> set ''0123456789''" by (rule digitChar_digit)
    with False 1 show ?thesis by (subst showNat.simps) simp
  qed
qed

lemma str_includes_skip:
  "c \<notin> set p \<Longrightarrow> str_includes (p @ t) (c # n) = str_includes t (c # n)"
  by (induction p) auto

lemma str_includes_self: "str_includes t t"
  by (cases t) simp_all

lemma str_includes_append_left: "str_includes t n \<Longrightarrow> str_includes (p @ t) n"
  by (induction p) auto

lemma http_error_marker:
  "transportMarker (''HTTP error! Status: '' @ showNat n @ ''. Message: '' @ t) = transportMarker t"
proof -
  have F: "CHR ''F'' \<notin> set (''HTTP error! Status: '' @ showNat n @ ''. Message: '')"
    using showNat_digits [of n] by auto
  have N: "CHR ''N'' \<notin> set (''HTTP error! Status: '' @ showNat n @ ''. Message: '')"
    using showNat_digits [of n] by auto
  have "str_includes ((''HTTP error! Status: '' @ showNat n @ ''. Message: '') @ t) ''Failed to fetch''
      = str_includes t ''Failed to fetch''"
    using F by (rule str_includes_skip)
  moreover have "str_includes ((''HTTP error! Status: '' @ showNat n @ ''. Message: '') @ t) ''NetworkError''
      = str_includes t ''NetworkError''"
    using N by (rule str_includes_skip)
  ultimately show ?thesis by (simp add: transportMarker_def)
qed

lemma no_message_no_marker: "\<not> transportMarker ''No message provided.''"
  by (simp add: transportMarker_def)

lemmas parseFloat_defs =
  parseFloat_def parseUnsigned_def isWhiteSpace_def isDigit_def digitsVal_def digitVal_def
  exponentPart_def scale10_def utf16_def

lemma parseFloat_minus5: "parseFloat (utf16 ''-5'') = Num (- 5)"
  by (simp add: parseFloat_defs roundToDouble_small)

lemma parseFloat_abc: "parseFloat (utf16 ''abc'') = NaN"
  by (simp add: parseFloat_defs)

lemma parseFloat_5: "parseFloat (utf16 ''5'') = Num 5"
  by (simp add: parseFloat_defs roundToDouble_small)


lemma parseFloat_500: "parseFloat (utf16 ''500'') = Num 500"
  by (simp add: parseFloat_defs roundToDouble_small)

text \<open>
  \<^verbatim>\<open>1e-324\<close> is a decimal literal of a positive value, and \<^verbatim>\<open>parseFloat\<close> gives
  zero; \<^verbatim>\<open>1e309\<close> gives infinity.
\<close>

lemma parseFloat_1e_minus324: "parseFloat (utf16 ''1e-324'') = Num 0"
proof -
  have "parseFloat (utf16 ''1e-324'') = roundToDouble (1 / 10 ^ 324)"
    by (simp add: parseFloat_defs)
  then show ?thesis
    by (simp only: roundToDouble_tiny)
qed

lemma parseFloat_1e309: "parseFloat (utf16 ''1e309'') = PosInf"
proof -
  have "parseFloat (utf16 ''1e309'') = roundToDouble (10 ^ 309)"
    by (simp add: parseFloat_defs)
  then show ?thesis
    by (simp only: roundToDouble_huge)
qed

lemma trim_Rent: "trim (utf16 ''Rent'') = utf16 ''Rent''"
  by (simp add: trim_def isWhiteSpace_def utf16_def)

lemma trim_Rent_spaces: "trim (utf16 '' Rent  '') = utf16 ''Rent''"
  by (simp add: trim_def isWhiteSpace_def utf16_def)

lemma Rent_not_blank: "utf16 ''Rent'' \<noteq> []"
  by (simp add: utf16_def)

text \<open>The no-break space U+00A0 is white space: a description made of it is blank.\<close>

lemma trim_nbsp: "trim [0xA0] = []"
  by (simp add: trim_def isWhiteSpace_def)

lemma positiveAmount_empty: "\<not> positiveAmount []"
  by (simp add: positiveAmount_def parseFloat_def)

lemma validate_rejects:
  assumes "trim (description s) = [] \<or> \<not> positiveAmount (amount s)"
  shows "handleAddTransaction_validate s =
     Inl (if trim (description s) = [] \<or> amount s = [] then ''Please enter both description and amount.''
          else ''Please enter a valid positive amount.'')"
  using assms by (auto simp: handleAddTransaction_validate_def positiveAmount_def Let_def)

lemma validate_accepts:
  assumes "trim (description s) \<noteq> []" "positiveAmount (amount s)"
  shows "handleAddTransaction_validate s =
     Inr \<lparr>nt_description = trim (description s), nt_amount = jsonNumber (parseFloat (amount s)),
          nt_type = type s, nt_userId = userId s\<rparr>"
proof -
  have "amount s \<noteq> []" using assms(2) positiveAmount_empty by auto
  then show ?thesis using assms by (auto simp: handleAddTransaction_validate_def positiveAmount_def Let_def)
qed


lemma roundHalfEven_bounds: "\<lfloor>q\<rfloor> \<le> roundHalfEven q \<and> roundHalfEven q \<le> \<lfloor>q\<rfloor> + 1"
  by (simp add: roundHalfEven_def Let_def)

lemma powi_le_cancel:
  assumes "(2::real) powi m \<le> 2 powi n"
  shows "m \<le> n"
proof (rule ccontr)
  assume "\<not> m \<le> n"
  then have "n + 1 \<le> m" by simp
  then have "(2::real) powi (n + 1) \<le> 2 powi m"
    by (rule power_int_increasing) simp
  moreover have "(2::real) powi n < 2 powi (n + 1)"
    by (simp add: powi_Suc)
  ultimately show False using assms by simp
qed

text \<open>The result of the rounding is a double: rounding it again changes nothing.\<close>

lemma roundToDouble_idem:
  assumes "roundToDouble x = Num r"
  shows "roundToDouble r = Num r"
proof -
  define a where "a = \<bar>x\<bar>"
  define u :: real where
    "u = (if a < 2 powi (- 1022) then 2 powi (- 1074) else 2 powi (binade a - 52))"
  define n where "n = roundHalfEven (a / u)"
  have d: "roundToDouble x =
     (if 2 powi 1024 \<le> a \<or> 2 powi 1024 \<le> of_int n * u then (if x < 0 then NegInf else PosInf)
      else Num (if x < 0 then - (of_int n * u) else of_int n * u))"
    by (simp add: roundToDouble_def Let_def a_def u_def n_def)
  with assms have hi: "a < 2 powi 1024" and lim: "of_int n * u < 2 powi 1024"
    and r: "r = (if x < 0 then - (of_int n * u) else of_int n * u)"
    by (auto split: if_splits)
  have a0: "0 \<le> a"
    by (simp add: a_def)
  have upos: "0 < u"
    by (simp add: u_def)
  then have q0: "0 \<le> a / u"
    using a0 by simp
  then have "0 \<le> \<lfloor>a / u\<rfloor>"
    by simp
  with roundHalfEven_bounds [of "a / u"] have n0: "0 \<le> n"
    unfolding n_def by linarith
  have main: "\<exists>m e. \<bar>m\<bar> < 2 ^ 53 \<and> - 1074 \<le> e \<and> e \<le> 971 \<and> of_int n * u = of_int m * 2 powi e"
  proof (cases "a < 2 powi (- 1022)")
    case True
    then have u: "u = 2 powi (- 1074)"
      by (simp add: u_def)
    have "a / u < 2 powi (- 1022) / 2 powi (- 1074)"
      unfolding u using True by (simp add: divide_strict_right_mono)
    also have "\<dots> = 2 ^ 52"
      using powi_quotient [of "- 1074" "- 1022"] by simp
    finally have "a / u < 2 ^ 52" .
    then have "\<lfloor>a / u\<rfloor> < 2 ^ 52"
      by (simp add: floor_less_iff)
    with roundHalfEven_bounds [of "a / u"] have "n \<le> 2 ^ 52"
      unfolding n_def by linarith
    moreover have "(2::int) ^ 52 < 2 ^ 53"
      by simp
    ultimately have "\<bar>n\<bar> < 2 ^ 53"
      using n0 by linarith
    moreover have "- 1074 \<le> (- 1074 :: int)" and "- 1074 \<le> (971 :: int)"
      by simp_all
    moreover have "of_int n * u = of_int n * 2 powi (- 1074)"
      unfolding u ..
    ultimately show ?thesis
      by blast
  next
    case False
    then have lo: "2 powi (- 1022) \<le> a" and u: "u = 2 powi (binade a - 52)"
      by (simp_all add: u_def)
    have "0 < (2::real) powi (- 1022)"
      by (rule zero_less_power_int) simp
    with lo have pos: "0 < a"
      by linarith
    define k where "k = binade a"
    from binade_bounds [OF pos] have kl: "2 powi k \<le> a" and ku: "a < 2 powi (k + 1)"
      by (simp_all add: k_def)
    from lo ku have "(2::real) powi (- 1022) < 2 powi (k + 1)"
      by linarith
    then have k1: "- 1022 \<le> k"
      using powi_less_cancel [of "- 1022" "k + 1"] by simp
    from kl hi have "(2::real) powi k < 2 powi 1024"
      by linarith
    then have k2: "k \<le> 1023"
      using powi_less_cancel [of k 1024] by simp
    have "a / u < 2 powi (k + 1) / 2 powi (k - 52)"
      unfolding u k_def [symmetric] using ku by (simp add: divide_strict_right_mono)
    also have "\<dots> = 2 ^ 53"
      using powi_quotient [of "k - 52" "k + 1"] by simp
    finally have "a / u < 2 ^ 53" .
    then have "\<lfloor>a / u\<rfloor> < 2 ^ 53"
      by (simp add: floor_less_iff)
    with roundHalfEven_bounds [of "a / u"] have nb: "n \<le> 2 ^ 53"
      unfolding n_def by linarith
    show ?thesis
    proof (cases "n = 2 ^ 53")
      case False
      with nb n0 have "\<bar>n\<bar> < 2 ^ 53"
        by linarith
      moreover from k1 k2 have "- 1074 \<le> k - 52" and "k - 52 \<le> 971"
        by simp_all
      moreover have "of_int n * u = of_int n * 2 powi (k - 52)"
        unfolding u k_def ..
      ultimately show ?thesis
        by blast
    next
      case True
      have "(2::real) powi (k + 1) = 2 powi (53 + (k - 52))"
        by (rule arg_cong [where f = "\<lambda>i. 2 powi i"]) simp
      also have "\<dots> = 2 powi 53 * 2 powi (k - 52)"
        by (rule power_int_add) simp
      also have "(2::real) powi 53 = of_int (2 ^ 53)"
        by simp
      finally have e: "of_int n * u = 2 powi (k + 1)"
        unfolding True u k_def [symmetric] by simp
      with lim have "(2::real) powi (k + 1) < 2 powi 1024"
        by simp
      then have "k + 1 < 1024"
        by (rule powi_less_cancel)
      then have k3: "k - 51 \<le> 971"
        by simp
      have "(2::real) powi (k + 1) = 2 powi (52 + (k - 51))"
        by (rule arg_cong [where f = "\<lambda>i. 2 powi i"]) simp
      also have "\<dots> = 2 powi 52 * 2 powi (k - 51)"
        by (rule power_int_add) simp
      also have "(2::real) powi 52 = of_int (2 ^ 52)"
        by simp
      finally have "of_int n * u = of_int (2 ^ 52) * 2 powi (k - 51)"
        unfolding e .
      moreover have "\<bar>2 ^ 52 :: int\<bar> < 2 ^ 53"
        by simp
      moreover from k1 have "- 1074 \<le> k - 51"
        by simp
      ultimately show ?thesis
        using k3 by blast
    qed
  qed
  then obtain m e where m: "\<bar>m\<bar> < 2 ^ 53" and e: "- 1074 \<le> e" "e \<le> 971"
    and v: "of_int n * u = of_int m * 2 powi e"
    by blast
  show ?thesis
  proof (cases "x < 0")
    case True
    with r v have "r = of_int (- m) * 2 powi e"
      by simp
    moreover have "\<bar>- m\<bar> < 2 ^ 53"
      using m by simp
    ultimately show ?thesis
      using roundToDouble_exact [of "- m" e] e by simp
  next
    case False
    with r v have "r = of_int m * 2 powi e"
      by simp
    then show ?thesis
      using roundToDouble_exact [OF m e] by simp
  qed
qed

lemma roundToDouble_minus: "roundToDouble (- x) = js_neg (roundToDouble x)"
proof (cases "x = 0")
  case True
  then show ?thesis
    by (simp add: roundToDouble_small)
next
  case False
  then have "(- x < 0) = (\<not> x < 0)"
    by auto
  then show ?thesis
    by (simp add: roundToDouble_def Let_def)
qed

text \<open>A finite number that \<^verbatim>\<open>parseFloat\<close> gives is a double.\<close>

lemma parseUnsigned_double:
  assumes "parseUnsigned u = Num r"
  shows "roundToDouble r = Num r"
proof -
  from assms obtain x where "roundToDouble x = Num r"
    by (auto simp: parseUnsigned_def Let_def split: if_splits)
  then show ?thesis
    by (rule roundToDouble_idem)
qed

lemma parseFloat_double:
  assumes "parseFloat s = Num r"
  shows "roundToDouble r = Num r"
proof (cases "dropWhile isWhiteSpace s")
  case Nil
  with assms show ?thesis
    by (simp add: parseFloat_def)
next
  case (Cons c t)
  show ?thesis
  proof (cases "c = of_char CHR ''-''")
    case True
    with assms Cons have n: "js_neg (parseUnsigned t) = Num r"
      by (simp add: parseFloat_def)
    then obtain a where a: "parseUnsigned t = Num a" and r: "r = - a"
      by (cases "parseUnsigned t") simp_all
    from parseUnsigned_double [OF a] show ?thesis
      unfolding r roundToDouble_minus by simp
  next
    case False
    with assms Cons have "parseUnsigned t = Num r \<or> parseUnsigned (c # t) = Num r"
      by (simp add: parseFloat_def split: if_splits)
    then show ?thesis
      using parseUnsigned_double by blast
  qed
qed

text \<open>
  The amount of a creation request, read back from the JSON, is the number that
  \<^verbatim>\<open>parseFloat\<close> gave, when that is finite.
\<close>

lemma amount_read_back:
  assumes "parseFloat s = Num r"
  shows "parseFloat_json (jsonNumber (parseFloat s)) = parseFloat s"
  using parseFloat_double [OF assms] by (simp add: assms)


text \<open>
  The rounding error is at most half of the spacing of the doubles around the argument.
\<close>

lemma roundHalfEven_error: "\<bar>of_int (roundHalfEven q) - q\<bar> \<le> 1 / 2"
proof -
  have "of_int \<lfloor>q\<rfloor> \<le> q" and "q < of_int \<lfloor>q\<rfloor> + 1"
    by linarith+
  then show ?thesis
    by (auto simp: roundHalfEven_def Let_def)
qed

lemma roundToDouble_error:
  assumes "roundToDouble x = Num r"
  shows "\<bar>r - x\<bar> \<le>
     (if \<bar>x\<bar> < 2 powi (- 1022) then 2 powi (- 1074) else 2 powi (binade \<bar>x\<bar> - 52)) / 2"
proof -
  define a where "a = \<bar>x\<bar>"
  define u :: real where
    "u = (if a < 2 powi (- 1022) then 2 powi (- 1074) else 2 powi (binade a - 52))"
  define n where "n = roundHalfEven (a / u)"
  have "roundToDouble x =
     (if 2 powi 1024 \<le> a \<or> 2 powi 1024 \<le> of_int n * u then (if x < 0 then NegInf else PosInf)
      else Num (if x < 0 then - (of_int n * u) else of_int n * u))"
    by (simp add: roundToDouble_def Let_def a_def u_def n_def)
  with assms have r: "r = (if x < 0 then - (of_int n * u) else of_int n * u)"
    by (auto split: if_splits)
  have upos: "0 < u"
    by (simp add: u_def)
  have "\<bar>of_int n * u - a\<bar> = \<bar>(of_int n - a / u) * u\<bar>"
    using upos by (simp add: algebra_simps)
  also have "\<dots> = \<bar>of_int n - a / u\<bar> * u"
    using upos by (simp add: abs_mult)
  also have "\<dots> \<le> 1 / 2 * u"
    using roundHalfEven_error [of "a / u"] upos unfolding n_def
    by (intro mult_right_mono) simp_all
  finally have e: "\<bar>of_int n * u - a\<bar> \<le> u / 2"
    by simp
  have "\<bar>r - x\<bar> = \<bar>of_int n * u - a\<bar>"
    unfolding r a_def by (cases "x < 0") simp_all
  with e show ?thesis
    unfolding u_def a_def by simp
qed

text \<open>A string is blank for \<^verbatim>\<open>trim\<close> exactly when it consists of white space.\<close>

lemma trim_blank_iff: "trim s = [] \<longleftrightarrow> (\<forall>c\<in>set s. isWhiteSpace c)"
proof
  assume "trim s = []"
  then have "dropWhile isWhiteSpace (rev (dropWhile isWhiteSpace s)) = []"
    by (simp add: trim_def)
  then have "\<forall>c\<in>set (dropWhile isWhiteSpace s). isWhiteSpace c"
    by simp
  moreover have "dropWhile isWhiteSpace s = [] \<or> \<not> isWhiteSpace (hd (dropWhile isWhiteSpace s))"
    using hd_dropWhile [of isWhiteSpace s] by blast
  ultimately have "dropWhile isWhiteSpace s = []"
    by (cases "dropWhile isWhiteSpace s") auto
  then show "\<forall>c\<in>set s. isWhiteSpace c"
    by simp
next
  assume "\<forall>c\<in>set s. isWhiteSpace c"
  then have d: "dropWhile isWhiteSpace s = []"
    by simp
  show "trim s = []"
    unfolding trim_def d by simp
qed

text \<open>
  \<^verbatim>\<open>parseFloat\<close> on literals with a fraction, an exponent, a sign, leading white space
  and trailing text.
\<close>

lemma roundToDouble_half: "roundToDouble (1 / 2) = Num (1 / 2)"
  using roundToDouble_exact [of 1 "- 1"] by (simp add: power_int_minus)

lemma parseFloat_examples:
  "parseFloat (utf16 ''5.'') = Num 5"
  "parseFloat (utf16 ''.5'') = Num (1 / 2)"
  "parseFloat (utf16 ''5e2'') = Num 500"
  "parseFloat (utf16 ''5E+2'') = Num 500"
  "parseFloat (utf16 ''5e'') = Num 5"
  "parseFloat (utf16 ''50e-1x'') = Num 5"
  "parseFloat (utf16 ''  40px'') = Num 40"
  "parseFloat (utf16 ''+7'') = Num 7"
  "parseFloat (utf16 ''0x10'') = Num 0"
  "parseFloat (utf16 ''1,5'') = Num 1"
  "parseFloat (utf16 ''-0'') = Num 0"
  "parseFloat (utf16 ''.'') = NaN"
  "parseFloat (utf16 ''+-5'') = NaN"
  "parseFloat (utf16 ''- 5'') = NaN"
  "parseFloat (utf16 ''e5'') = NaN"
  "parseFloat [] = NaN"
  "parseFloat (utf16 ''Infinity'') = PosInf"
  "parseFloat (utf16 ''-Infinity'') = NegInf"
  "parseFloat (utf16 ''infinity'') = NaN"
  by (simp_all add: parseFloat_defs roundToDouble_small roundToDouble_half)

lemma trim_examples:
  "trim [0x09, 0x20, 0x52, 0x20, 0x74, 0x0A, 0x3000] = [0x52, 0x20, 0x74]"
  "trim [0xFEFF, 0x2003, 0x2029] = []"
  "trim [0x85, 0x200B] = [0x85, 0x200B]"
  by (simp_all add: trim_def isWhiteSpace_def)

lemma toFixed2_examples:
  "toFixed2 (Num (1 / 2)) = Some ''0.50''"
  "toFixed2 (Num (- 5)) = Some ''-5.00''"
  "toFixed2 (Num (1 / 8)) = Some ''0.13''"
  "toFixed2 (Num 0) = Some ''0.00''"
  "toFixed2 NaN = Some ''NaN''"
  "toFixed2 (Num (10 ^ 21)) = None"
  by (simp_all add: toFixed2_def showNat.simps digitChar_def)

section \<open>The aggregates\<close>



















section \<open>Adding a transaction\<close>

text \<open>
  Claim C2. When the description is blank after trimming or the amount is not read by
  \<^verbatim>\<open>parseFloat\<close> as a positive number, \<^verbatim>\<open>handleAddTransaction\<close> sends no
  request, leaves the server and the list of transactions as they are, and shows a
  message: the one asking for both fields when the description is blank or the amount is
  empty, the one asking for a positive amount otherwise. For the amount \<^verbatim>\<open>-5\<close>, the
  description being filled in, the message is the one asking for a positive amount.
\<close>

theorem add_rejected_locally:
  "(trim (description (ui w)) = [] \<or> \<not> positiveAmount (amount (ui w)) \<longrightarrow>
      requests (handleAddTransaction net w) = requests w
    \<and> server (handleAddTransaction net w) = server w
    \<and> transactions (ui (handleAddTransaction net w)) = transactions (ui w)
    \<and> showMessage (ui (handleAddTransaction net w))
    \<and> message (ui (handleAddTransaction net w)) =
        (if trim (description (ui w)) = [] \<or> amount (ui w) = []
         then ''Please enter both description and amount.''
         else ''Please enter a valid positive amount.''))
   \<and> (amount (ui w) = utf16 ''-5'' \<and> trim (description (ui w)) \<noteq> [] \<longrightarrow>
      requests (handleAddTransaction net w) = requests w
    \<and> transactions (ui (handleAddTransaction net w)) = transactions (ui w)
    \<and> showMessage (ui (handleAddTransaction net w))
    \<and> message (ui (handleAddTransaction net w)) = ''Please enter a valid positive amount.'')"
proof -
  have g: "requests (handleAddTransaction net w) = requests w
    \<and> server (handleAddTransaction net w) = server w
    \<and> transactions (ui (handleAddTransaction net w)) = transactions (ui w)
    \<and> showMessage (ui (handleAddTransaction net w))
    \<and> message (ui (handleAddTransaction net w)) =
        (if trim (description (ui w)) = [] \<or> amount (ui w) = []
         then ''Please enter both description and amount.''
         else ''Please enter a valid positive amount.'')"
    if "trim (description (ui w)) = [] \<or> \<not> positiveAmount (amount (ui w))"
    using validate_rejects [OF that] by (simp add: handleAddTransaction_def)
  have m5: "\<not> positiveAmount (utf16 ''-5'')"
    by (simp add: positiveAmount_def parseFloat_minus5)
  have n5: "utf16 ''-5'' \<noteq> []"
    by (simp add: utf16_def)
  have h: "requests (handleAddTransaction net w) = requests w
    \<and> transactions (ui (handleAddTransaction net w)) = transactions (ui w)
    \<and> showMessage (ui (handleAddTransaction net w))
    \<and> message (ui (handleAddTransaction net w)) = ''Please enter a valid positive amount.''"
    if a: "amount (ui w) = utf16 ''-5''" and d: "trim (description (ui w)) \<noteq> []"
  proof -
    from m5 a have "trim (description (ui w)) = [] \<or> \<not> positiveAmount (amount (ui w))"
      by simp
    from g [OF this] a d n5 show ?thesis
      by simp
  qed
  from g h show ?thesis by blast
qed

theorem add_rejected_locally_witness:
  "trim (description (ui (formWorld [0xA0] (utf16 ''5'') ''expense'' ()))) = []
   \<and> positiveAmount (utf16 ''5'')
   \<and> requests (handleAddTransaction offline (formWorld [0xA0] (utf16 ''5'') ''expense'' ())) = []
   \<and> message (ui (handleAddTransaction offline (formWorld [0xA0] (utf16 ''5'') ''expense'' ())))
       = ''Please enter both description and amount.''
   \<and> \<not> positiveAmount (utf16 ''1e-324'')
   \<and> requests (handleAddTransaction offline
         (formWorld (utf16 ''Rent'') (utf16 ''1e-324'') ''expense'' ())) = []
   \<and> message (ui (handleAddTransaction offline
         (formWorld (utf16 ''Rent'') (utf16 ''1e-324'') ''expense'' ())))
       = ''Please enter a valid positive amount.''
   \<and> trim (utf16 ''Rent'') \<noteq> []
   \<and> requests (handleAddTransaction offline (formWorld (utf16 ''Rent'') (utf16 ''-5'') ''expense'' ()))
       = []
   \<and> message (ui (handleAddTransaction offline (formWorld (utf16 ''Rent'') (utf16 ''-5'') ''expense'' ())))
       = ''Please enter a valid positive amount.''"
proof -
  let ?a = "formWorld [0xA0] (utf16 ''5'') ''expense'' ()"
  let ?b = "formWorld (utf16 ''Rent'') (utf16 ''1e-324'') ''expense'' ()"
  let ?c = "formWorld (utf16 ''Rent'') (utf16 ''-5'') ''expense'' ()"
  have u: "description (ui (formWorld d a t ())) = d" "amount (ui (formWorld d a t ())) = a"
    "requests (formWorld d a t ()) = []" for d a t
    by (simp_all add: formWorld_def formState_def)
  have p5: "positiveAmount (utf16 ''5'')"
    by (simp add: positiveAmount_def parseFloat_5)
  have t: "\<not> positiveAmount (utf16 ''1e-324'')"
    by (simp add: positiveAmount_def parseFloat_1e_minus324)
  have r: "trim (utf16 ''Rent'') \<noteq> []"
    by (simp add: trim_Rent Rent_not_blank)
  have e: "utf16 ''1e-324'' \<noteq> []" "utf16 ''5'' \<noteq> []"
    by (simp_all add: utf16_def)
  have da: "trim (description (ui ?a)) = []"
    by (simp add: u trim_nbsp)
  from add_rejected_locally [of ?a offline, THEN conjunct1] da
  have a: "requests (handleAddTransaction offline ?a) = []
    \<and> message (ui (handleAddTransaction offline ?a)) = ''Please enter both description and amount.''"
    by (simp add: u)
  from add_rejected_locally [of ?b offline, THEN conjunct1] t r e
  have b: "requests (handleAddTransaction offline ?b) = []
    \<and> message (ui (handleAddTransaction offline ?b)) = ''Please enter a valid positive amount.''"
    by (simp add: u)
  from add_rejected_locally [of ?c offline, THEN conjunct2] r
  have c: "requests (handleAddTransaction offline ?c) = []
    \<and> message (ui (handleAddTransaction offline ?c)) = ''Please enter a valid positive amount.''"
    by (simp add: u)
  from da p5 a t b r c show ?thesis
    by blast
qed

section \<open>Listing the transactions\<close>

lemma settle_failed:
  "fetchTransactions_try r = Inl m \<Longrightarrow>
   fetchTransactions_settle r s = (fetchTransactions_catch m s)\<lparr>loading := False\<rparr>"
  by (simp add: fetchTransactions_settle_def)

lemma settle_ok:
  "fetchTransactions_try r = Inr data \<Longrightarrow>
   fetchTransactions_settle r s = s\<lparr>transactions := data, loading := False\<rparr>"
  by (simp add: fetchTransactions_settle_def)

lemma fetchTransactions_unfold:
  "api_get net (userId (ui w)) (server w) = (r, sv) \<Longrightarrow>
   fetchTransactions net w =
     \<lparr>ui = fetchTransactions_settle r ((ui w)\<lparr>loading := True\<rparr>), server = sv,
      requests = requests w @ [GET_transactions (userId (ui w))]\<rparr>"
  by (simp add: fetchTransactions_def)

lemma catch_message:
  "message (fetchTransactions_catch m s) =
     (if transportMarker m
      then ''Could not connect to the backend server at http://localhost:5000/api. Please ensure your backend (server.js) is running in a separate terminal.''
      else ''Error fetching data: '' @ m)"
  by (simp add: fetchTransactions_catch_def transportMarker_def API_BASE_URL_def Let_def)

lemma catch_clears:
  "transactions (fetchTransactions_catch m s) = [] \<and> showMessage (fetchTransactions_catch m s)"
  by (simp add: fetchTransactions_catch_def Let_def)

lemma try_not_ok:
  "\<not> ok response \<Longrightarrow>
   fetchTransactions_try (Responded response) =
     Inl (''HTTP error! Status: '' @ showNat (status response) @ ''. Message: ''
          @ (if body_text response \<noteq> [] then body_text response else ''No message provided.''))"
  by (simp add: fetchTransactions_try_def)

lemma not_ok_marker:
  "transportMarker (''HTTP error! Status: '' @ showNat n @ ''. Message: ''
          @ (if t \<noteq> [] then t else ''No message provided.'')) = transportMarker t"
proof (cases "t = []")
  case True
  have "\<not> transportMarker []" by (simp add: transportMarker_def)
  with True show ?thesis
    using http_error_marker [of n "''No message provided.''"] no_message_no_marker by simp
next
  case False
  then show ?thesis using http_error_marker [of n t] by simp
qed

text \<open>
  Claim C4, amended. For every response to the list request that is not ok, the list of
  transactions is emptied and a message is shown: the text
  \<^verbatim>\<open>Error fetching data: HTTP error! Status: <status>. Message: <body>\<close>, which
  contains the body sent by the server (\<^verbatim>\<open>No message provided.\<close> stands for an empty
  body), unless the body contains \<^verbatim>\<open>Failed to fetch\<close> or \<^verbatim>\<open>NetworkError\<close>, in
  which case the message is the one about the server that cannot be reached. For status
  500 with the body \<^verbatim>\<open>{"error":"db down"}\<close> the message contains \<^verbatim>\<open>db down\<close> and
  the list is empty. For an ok response whose body is read as JSON, the list becomes
  the data of the response and nothing else of the state changes but the loading flag.
\<close>

theorem list_response_handling:
  "(api_get net (userId (ui w)) (server w) = (Responded response, sv) \<and> \<not> ok response \<longrightarrow>
      transactions (ui (fetchTransactions net w)) = []
    \<and> showMessage (ui (fetchTransactions net w))
    \<and> \<not> loading (ui (fetchTransactions net w))
    \<and> message (ui (fetchTransactions net w)) =
        (if transportMarker (body_text response)
         then ''Could not connect to the backend server at http://localhost:5000/api. Please ensure your backend (server.js) is running in a separate terminal.''
         else ''Error fetching data: HTTP error! Status: '' @ showNat (status response)
              @ ''. Message: ''
              @ (if body_text response \<noteq> [] then body_text response
                 else ''No message provided.''))
    \<and> (transportMarker (body_text response)
        \<or> str_includes (message (ui (fetchTransactions net w))) (body_text response)))
   \<and> (api_get net (userId (ui w)) (server w) = (Responded dbDown, sv) \<longrightarrow>
      str_includes (message (ui (fetchTransactions net w))) ''db down''
    \<and> transactions (ui (fetchTransactions net w)) = [])
   \<and> (api_get net (userId (ui w)) (server w) = (Responded response, sv) \<and> ok response
      \<and> body_json response = Inr data \<longrightarrow>
      ui (fetchTransactions net w) = (ui w)\<lparr>transactions := data, loading := False\<rparr>)"
proof -
  let ?w' = "fetchTransactions net w"
  have bad: "transactions (ui ?w') = []
    \<and> showMessage (ui ?w')
    \<and> \<not> loading (ui ?w')
    \<and> message (ui ?w') =
        (if transportMarker (body_text r)
         then ''Could not connect to the backend server at http://localhost:5000/api. Please ensure your backend (server.js) is running in a separate terminal.''
         else ''Error fetching data: HTTP error! Status: '' @ showNat (status r)
              @ ''. Message: ''
              @ (if body_text r \<noteq> [] then body_text r else ''No message provided.''))"
    if g: "api_get net (userId (ui w)) (server w) = (Responded r, sv)" and n: "\<not> ok r" for r
  proof -
    define M where "M = ''HTTP error! Status: '' @ showNat (status r) @ ''. Message: ''
          @ (if body_text r \<noteq> [] then body_text r else ''No message provided.'')"
    have t: "fetchTransactions_try (Responded r) = Inl M"
      using try_not_ok [OF n] unfolding M_def .
    have mk: "transportMarker M = transportMarker (body_text r)"
      unfolding M_def by (rule not_ok_marker)
    have u: "ui ?w' = (fetchTransactions_catch M ((ui w)\<lparr>loading := True\<rparr>))\<lparr>loading := False\<rparr>"
      unfolding fetchTransactions_unfold [OF g] by (simp add: settle_failed [OF t])
    have "message (ui ?w') =
        (if transportMarker (body_text r)
         then ''Could not connect to the backend server at http://localhost:5000/api. Please ensure your backend (server.js) is running in a separate terminal.''
         else ''Error fetching data: '' @ M)"
      unfolding u by (simp add: catch_message mk)
    then have "message (ui ?w') =
        (if transportMarker (body_text r)
         then ''Could not connect to the backend server at http://localhost:5000/api. Please ensure your backend (server.js) is running in a separate terminal.''
         else ''Error fetching data: HTTP error! Status: '' @ showNat (status r)
              @ ''. Message: ''
              @ (if body_text r \<noteq> [] then body_text r else ''No message provided.''))"
      unfolding M_def by simp
    moreover have "transactions (ui ?w') = [] \<and> showMessage (ui ?w') \<and> \<not> loading (ui ?w')"
      unfolding u by (simp add: catch_clears)
    ultimately show ?thesis by blast
  qed
  have contains: "str_includes (message (ui ?w')) (body_text r)"
    if g: "api_get net (userId (ui w)) (server w) = (Responded r, sv)" and n: "\<not> ok r"
      and m: "\<not> transportMarker (body_text r)" for r
  proof (cases "body_text r = []")
    case True
    have "str_includes s []" for s by (cases s) simp_all
    with True show ?thesis by simp
  next
    case False
    have e: "message (ui ?w') =
       (''Error fetching data: HTTP error! Status: '' @ showNat (status r) @ ''. Message: '')
       @ body_text r"
      using bad [OF g n] m False by simp
    show ?thesis
      unfolding e by (rule str_includes_append_left [OF str_includes_self])
  qed
  have db: "str_includes (message (ui ?w')) ''db down'' \<and> transactions (ui ?w') = []"
    if g: "api_get net (userId (ui w)) (server w) = (Responded dbDown, sv)"
  proof -
    have n: "\<not> ok dbDown" by (simp add: ok_def dbDown_def)
    have nm: "\<not> transportMarker (body_text dbDown)"
      by (simp add: transportMarker_def dbDown_def)
    have e: "message (ui ?w') =
       (''Error fetching data: HTTP error! Status: '' @ showNat (status dbDown) @ ''. Message: '' @ [CHR ''{'', CHR 0x22, CHR ''e'', CHR ''r'', CHR ''r'', CHR ''o'', CHR ''r'', CHR 0x22, CHR '':'', CHR 0x22])
       @ (''db down'' @ [CHR 0x22, CHR ''}''])"
      using bad [OF g n] nm by (simp add: dbDown_def)
    have "str_includes (message (ui ?w')) ''db down''"
      unfolding e by (rule str_includes_append_left) simp
    with bad [OF g n] show ?thesis
      by blast
  qed
  have good: "ui ?w' = (ui w)\<lparr>transactions := data, loading := False\<rparr>"
    if g: "api_get net (userId (ui w)) (server w) = (Responded r, sv)" and k: "ok r"
      and j: "body_json r = Inr data" for r
  proof -
    have "fetchTransactions_try (Responded r) = Inr data"
      using k j by (simp add: fetchTransactions_try_def)
    from settle_ok [OF this] show ?thesis
      unfolding fetchTransactions_unfold [OF g] by simp
  qed
  from bad contains db good show ?thesis by blast
qed


theorem list_response_handling_witness:
  "\<not> ok dbDown
   \<and> transactions (ui (fetchTransactions (constApi (Responded dbDown) (Rejected []) (Rejected []))
         (formWorld [] [] ''expense'' ()))) = []
   \<and> str_includes (message (ui (fetchTransactions
         (constApi (Responded dbDown) (Rejected []) (Rejected []))
         (formWorld [] [] ''expense'' ())))) ''db down''
   \<and> ok (listed [tx1, tx2])
   \<and> transactions (ui (fetchTransactions
         (constApi (Responded (listed [tx1, tx2])) (Rejected []) (Rejected []))
         (formWorld [] [] ''expense'' ()))) = [tx1, tx2]"
proof -
  let ?w = "formWorld [] [] ''expense'' ()"
  let ?bad = "constApi (Responded dbDown) (Rejected []) (Rejected [])"
  let ?good = "constApi (Responded (listed [tx1, tx2])) (Rejected []) (Rejected [])"
  have n: "\<not> ok dbDown"
    by (simp add: ok_def dbDown_def)
  have k: "ok (listed [tx1, tx2])"
    by (simp add: ok_def listed_def)
  have j: "body_json (listed [tx1, tx2]) = Inr [tx1, tx2]"
    by (simp add: listed_def)
  have g1: "api_get ?bad (userId (ui ?w)) (server ?w) = (Responded dbDown, ())"
    by (simp add: constApi_def)
  have g2: "api_get ?good (userId (ui ?w)) (server ?w) = (Responded (listed [tx1, tx2]), ())"
    by (simp add: constApi_def)
  from list_response_handling [where net = ?bad and w = ?w and response = dbDown and sv = "()"]
    g1 n
  have a: "transactions (ui (fetchTransactions ?bad ?w)) = []
      \<and> str_includes (message (ui (fetchTransactions ?bad ?w))) ''db down''"
    by blast
  from list_response_handling [where net = ?good and w = ?w and response = "listed [tx1, tx2]"
      and sv = "()" and data = "[tx1, tx2]"] g2 k j
  have "ui (fetchTransactions ?good ?w) = (ui ?w)\<lparr>transactions := [tx1, tx2], loading := False\<rparr>"
    by blast
  then have b: "transactions (ui (fetchTransactions ?good ?w)) = [tx1, tx2]"
    by simp
  from n k a b show ?thesis by blast
qed

text \<open>
  A body that contains one of the two marker texts is not shown: the message is the one
  about the server that cannot be reached.
\<close>

theorem server_text_not_surfaced_counterexample:
  "\<not> ok failedToFetch
   \<and> message (ui (fetchTransactions
         (constApi (Responded failedToFetch) (Rejected []) (Rejected []))
         (formWorld [] [] ''expense'' ())))
     = ''Could not connect to the backend server at http://localhost:5000/api. Please ensure your backend (server.js) is running in a separate terminal.''
   \<and> \<not> str_includes (message (ui (fetchTransactions
         (constApi (Responded failedToFetch) (Rejected []) (Rejected []))
         (formWorld [] [] ''expense'' ())))) (body_text failedToFetch)"
proof -
  let ?w = "formWorld [] [] ''expense'' ()"
  let ?net = "constApi (Responded failedToFetch) (Rejected []) (Rejected [])"
  have n: "\<not> ok failedToFetch"
    by (simp add: ok_def failedToFetch_def)
  have g: "api_get ?net (userId (ui ?w)) (server ?w) = (Responded failedToFetch, ())"
    by (simp add: constApi_def)
  have mk: "transportMarker (''HTTP error! Status: '' @ showNat (status failedToFetch)
       @ ''. Message: '' @ (if body_text failedToFetch \<noteq> [] then body_text failedToFetch
                           else ''No message provided.''))"
    unfolding not_ok_marker by (simp add: transportMarker_def failedToFetch_def)
  have m: "message (ui (fetchTransactions ?net ?w))
     = ''Could not connect to the backend server at http://localhost:5000/api. Please ensure your backend (server.js) is running in a separate terminal.''"
    unfolding fetchTransactions_unfold [OF g] settle_failed [OF try_not_ok [OF n]]
    using mk by (simp add: catch_message)
  have "\<not> str_includes (message (ui (fetchTransactions ?net ?w))) (body_text failedToFetch)"
    unfolding m by (simp add: failedToFetch_def)
  with n m show ?thesis by blast
qed


section \<open>Facts about the two handlers\<close>

lemma handleAdd_failed:
  "handleAddTransaction_validate (ui w) = Inr body \<Longrightarrow>
   api_post net body (server w) = (r, sv) \<Longrightarrow> mutation_try r = Inl m \<Longrightarrow>
   handleAddTransaction net w =
     \<lparr>ui = (handleAddTransaction_catch m ((ui w)\<lparr>loading := True\<rparr>))\<lparr>loading := False\<rparr>,
      server = sv, requests = requests w @ [POST_transactions body]\<rparr>"
  by (simp add: handleAddTransaction_def)

lemma handleAdd_succeeded:
  "handleAddTransaction_validate (ui w) = Inr body \<Longrightarrow>
   api_post net body (server w) = (r, sv) \<Longrightarrow> mutation_try r = Inr u \<Longrightarrow>
   api_get net (userId (ui w)) sv = (g, sv') \<Longrightarrow>
   handleAddTransaction net w =
     \<lparr>ui = handleAddTransaction_finish (fetchTransactions_settle g ((ui w)\<lparr>loading := True\<rparr>)),
      server = sv',
      requests = requests w @ [POST_transactions body, GET_transactions (userId (ui w))]\<rparr>"
  by (simp add: handleAddTransaction_def fetchTransactions_def)

lemma handleDelete_failed:
  "api_delete net i (server w) = (r, sv) \<Longrightarrow> mutation_try r = Inl m \<Longrightarrow>
   handleDeleteTransaction net i w =
     \<lparr>ui = (handleDeleteTransaction_catch m ((ui w)\<lparr>loading := True\<rparr>))\<lparr>loading := False\<rparr>,
      server = sv, requests = requests w @ [DELETE_transactions i]\<rparr>"
  by (simp add: handleDeleteTransaction_def)

lemma handleDelete_succeeded:
  "api_delete net i (server w) = (r, sv) \<Longrightarrow> mutation_try r = Inr u \<Longrightarrow>
   api_get net (userId (ui w)) sv = (g, sv') \<Longrightarrow>
   handleDeleteTransaction net i w =
     \<lparr>ui = handleDeleteTransaction_finish (fetchTransactions_settle g ((ui w)\<lparr>loading := True\<rparr>)),
      server = sv',
      requests = requests w @ [DELETE_transactions i, GET_transactions (userId (ui w))]\<rparr>"
  by (simp add: handleDeleteTransaction_def fetchTransactions_def)

lemma mutation_try_ok: "ok response \<Longrightarrow> mutation_try (Responded response) = Inr ()"
  by (simp add: mutation_try_def)

lemma mutation_try_notOk: "notOk r \<Longrightarrow> \<exists>m. mutation_try r = Inl m"
  by (auto simp: mutation_try_def notOk_def split: fetch_result.splits sum.splits option.splits)

lemma add_catch_message:
  "message (handleAddTransaction_catch m s) =
     (if transportMarker m
      then ''Could not connect to the backend server at http://localhost:5000/api. Please ensure your backend (server.js) is running.''
      else ''Error adding transaction: '' @ m)"
  by (simp add: handleAddTransaction_catch_def transportMarker_def API_BASE_URL_def Let_def)

lemma delete_catch_message:
  "message (handleDeleteTransaction_catch m s) =
     (if transportMarker m
      then ''Could not connect to the backend server at http://localhost:5000/api. Please ensure your backend (server.js) is running.''
      else ''Error deleting transaction: '' @ m)"
  by (simp add: handleDeleteTransaction_catch_def transportMarker_def API_BASE_URL_def Let_def)

lemma mutation_catch_keeps:
  "transactions (handleAddTransaction_catch m s) = transactions s"
  "transactions (handleDeleteTransaction_catch m s) = transactions s"
  "showMessage (handleAddTransaction_catch m s)"
  "showMessage (handleDeleteTransaction_catch m s)"
  by (simp_all add: handleAddTransaction_catch_def handleDeleteTransaction_catch_def Let_def)

lemma connect_names_server:
  "str_includes ''Could not connect to the backend server at http://localhost:5000/api. Please ensure your backend (server.js) is running in a separate terminal.'' API_BASE_URL"
  "str_includes ''Could not connect to the backend server at http://localhost:5000/api. Please ensure your backend (server.js) is running.'' API_BASE_URL"
  by (simp_all add: API_BASE_URL_def)

lemma rent_500_valid:
  "description s = utf16 ''Rent'' \<Longrightarrow> amount s = utf16 ''500'' \<Longrightarrow>
   handleAddTransaction_validate s =
     Inr \<lparr>nt_description = utf16 ''Rent'', nt_amount = ANum 500, nt_type = type s,
          nt_userId = userId s\<rparr>"
proof -
  assume d: "description s = utf16 ''Rent''" and a: "amount s = utf16 ''500''"
  have "positiveAmount (amount s)"
    by (simp add: a positiveAmount_def parseFloat_500)
  moreover have "trim (description s) \<noteq> []"
    by (simp add: d trim_Rent Rent_not_blank)
  ultimately show ?thesis
    using validate_accepts [of s] by (simp add: d a trim_Rent parseFloat_500)
qed

lemma loadedWorld_ui:
  "description (ui (loadedWorld d a t)) = d" "amount (ui (loadedWorld d a t)) = a"
  "type (ui (loadedWorld d a t)) = t"
  "userId (ui (loadedWorld d a t)) = ''user_1700000000000_k3x9q2a''"
  "transactions (ui (loadedWorld d a t)) = [tx1, tx2]"
  "requests (loadedWorld d a t) = []"
  by (simp_all add: loadedWorld_def formState_def initialState_def)

lemma finish_fields:
  "description (handleAddTransaction_finish s) = []"
  "amount (handleAddTransaction_finish s) = []"
  "type (handleAddTransaction_finish s) = ''expense''"
  "message (handleAddTransaction_finish s) = ''Transaction added successfully!''"
  "showMessage (handleAddTransaction_finish s)"
  "\<not> loading (handleAddTransaction_finish s)"
  "transactions (handleAddTransaction_finish s) = transactions s"
  "message (handleDeleteTransaction_finish s) = ''Transaction deleted successfully!''"
  "showMessage (handleDeleteTransaction_finish s)"
  "\<not> loading (handleDeleteTransaction_finish s)"
  "transactions (handleDeleteTransaction_finish s) = transactions s"
  by (simp_all add: handleAddTransaction_finish_def handleDeleteTransaction_finish_def)

lemma settle_transactions:
  "transactions (fetchTransactions_settle g s) =
     (case fetchTransactions_try g of Inl e \<Rightarrow> [] | Inr data \<Rightarrow> data)"
  by (simp add: fetchTransactions_settle_def fetchTransactions_catch_def Let_def split: sum.splits)

lemma rent500_world:
  "trim (description (ui (loadedWorld (utf16 ''Rent'') (utf16 ''500'') ''expense''))) \<noteq> []"
  "positiveAmount (amount (ui (loadedWorld (utf16 ''Rent'') (utf16 ''500'') ''expense'')))"
  "\<lparr>nt_description = trim (description (ui (loadedWorld (utf16 ''Rent'') (utf16 ''500'') ''expense''))),
     nt_amount = jsonNumber (parseFloat (amount (ui (loadedWorld (utf16 ''Rent'') (utf16 ''500'') ''expense'')))),
     nt_type = type (ui (loadedWorld (utf16 ''Rent'') (utf16 ''500'') ''expense'')),
     nt_userId = userId (ui (loadedWorld (utf16 ''Rent'') (utf16 ''500'') ''expense''))\<rparr> = rent500"
  by (simp_all add: loadedWorld_ui trim_Rent Rent_not_blank positiveAmount_def parseFloat_500
      rent500_def)

lemma ok_created: "ok created"
  by (simp add: ok_def created_def)

section \<open>A successful creation request\<close>

text \<open>
  Claim C5. For a description that is not blank and a positive amount, when the creation
  request is answered with an ok response, \<^verbatim>\<open>handleAddTransaction\<close> sends the
  creation request and then the list request, and its final state is the state in which
  the list request left the component, with the three inputs reset to their defaults
  (empty description, empty amount, type expense), the success message shown and the
  loading flag off.
\<close>

theorem add_success_refreshes_then_resets:
  assumes "trim (description (ui w)) \<noteq> []" and "positiveAmount (amount (ui w))"
    and "api_post net
           \<lparr>nt_description = trim (description (ui w)), nt_amount = jsonNumber (parseFloat (amount (ui w))),
            nt_type = type (ui w), nt_userId = userId (ui w)\<rparr> (server w)
         = (Responded response, sv)"
    and "ok response"
    and "api_get net (userId (ui w)) sv = (g, sv')"
  shows "requests (handleAddTransaction net w) =
           requests w @
           [POST_transactions
              \<lparr>nt_description = trim (description (ui w)), nt_amount = jsonNumber (parseFloat (amount (ui w))),
               nt_type = type (ui w), nt_userId = userId (ui w)\<rparr>,
            GET_transactions (userId (ui w))]
       \<and> server (handleAddTransaction net w) = sv'
       \<and> ui (handleAddTransaction net w) =
           handleAddTransaction_finish (fetchTransactions_settle g ((ui w)\<lparr>loading := True\<rparr>))
       \<and> transactions (ui (handleAddTransaction net w)) =
           (case fetchTransactions_try g of Inl e \<Rightarrow> [] | Inr data \<Rightarrow> data)
       \<and> description (ui (handleAddTransaction net w)) = []
       \<and> amount (ui (handleAddTransaction net w)) = []
       \<and> type (ui (handleAddTransaction net w)) = ''expense''
       \<and> message (ui (handleAddTransaction net w)) = ''Transaction added successfully!''
       \<and> showMessage (ui (handleAddTransaction net w))
       \<and> \<not> loading (ui (handleAddTransaction net w))"
proof -
  note v = validate_accepts [OF assms(1,2)]
  note h = handleAdd_succeeded [OF v assms(3) mutation_try_ok [OF assms(4)] assms(5)]
  show ?thesis
    unfolding h by (simp add: finish_fields settle_transactions)
qed

theorem add_success_refreshes_then_resets_witness:
  "trim (description (ui (loadedWorld (utf16 ''Rent'') (utf16 ''500'') ''expense''))) \<noteq> []
   \<and> positiveAmount (amount (ui (loadedWorld (utf16 ''Rent'') (utf16 ''500'') ''expense'')))
   \<and> ok created
   \<and> requests (handleAddTransaction accepting (loadedWorld (utf16 ''Rent'') (utf16 ''500'') ''expense''))
       = [POST_transactions rent500, GET_transactions ''user_1700000000000_k3x9q2a'']
   \<and> transactions (ui (handleAddTransaction accepting (loadedWorld (utf16 ''Rent'') (utf16 ''500'') ''expense'')))
       = [tx1, tx2]
   \<and> description (ui (handleAddTransaction accepting (loadedWorld (utf16 ''Rent'') (utf16 ''500'') ''expense'')))
       = []
   \<and> message (ui (handleAddTransaction accepting (loadedWorld (utf16 ''Rent'') (utf16 ''500'') ''expense'')))
       = ''Transaction added successfully!''"
proof -
  let ?w = "loadedWorld (utf16 ''Rent'') (utf16 ''500'') ''expense''"
  have p: "api_post accepting
           \<lparr>nt_description = trim (description (ui ?w)), nt_amount = jsonNumber (parseFloat (amount (ui ?w))),
            nt_type = type (ui ?w), nt_userId = userId (ui ?w)\<rparr> (server ?w)
         = (Responded created, ())"
    by (simp add: accepting_def constApi_def)
  have g: "api_get accepting (userId (ui ?w)) () = (Responded (listed [tx1, tx2]), ())"
    by (simp add: accepting_def constApi_def)
  have t: "fetchTransactions_try (Responded (listed [tx1, tx2])) = Inr [tx1, tx2]"
    by (simp add: fetchTransactions_try_def ok_def listed_def)
  note r = add_success_refreshes_then_resets [OF rent500_world(1,2) p ok_created g,
      unfolded rent500_world(3) t sum.case]
  from r have q: "requests (handleAddTransaction accepting ?w)
       = requests ?w @ [POST_transactions rent500, GET_transactions (userId (ui ?w))]"
    and tr: "transactions (ui (handleAddTransaction accepting ?w)) = [tx1, tx2]"
    and de: "description (ui (handleAddTransaction accepting ?w)) = []"
    and me: "message (ui (handleAddTransaction accepting ?w)) = ''Transaction added successfully!''"
    by blast+
  have q': "requests (handleAddTransaction accepting ?w)
       = [POST_transactions rent500, GET_transactions ''user_1700000000000_k3x9q2a'']"
    unfolding q by (simp add: loadedWorld_ui)
  from rent500_world(1,2) ok_created q' tr de me show ?thesis
    by blast
qed

section \<open>A refresh that fails after a successful request\<close>

text \<open>
  Claim C9. When the creation or removal request succeeds and the refresh that follows
  fails, the final state is the state of the catch block of \<^verbatim>\<open>fetchTransactions\<close>
  (error message set, list emptied) overwritten by the success path of the handler: the
  message is the success confirmation, the list is empty, and for the creation the
  inputs are reset.
\<close>

theorem refresh_failure_overwritten:
  "(trim (description (ui w)) \<noteq> [] \<and> positiveAmount (amount (ui w))
    \<and> api_post net
           \<lparr>nt_description = trim (description (ui w)), nt_amount = jsonNumber (parseFloat (amount (ui w))),
            nt_type = type (ui w), nt_userId = userId (ui w)\<rparr> (server w)
         = (Responded response, sv)
    \<and> ok response
    \<and> api_get net (userId (ui w)) sv = (g, sv')
    \<and> fetchTransactions_try g = Inl e \<longrightarrow>
      ui (handleAddTransaction net w) =
        handleAddTransaction_finish
          ((fetchTransactions_catch e ((ui w)\<lparr>loading := True\<rparr>))\<lparr>loading := False\<rparr>)
    \<and> message (ui (handleAddTransaction net w)) = ''Transaction added successfully!''
    \<and> showMessage (ui (handleAddTransaction net w))
    \<and> transactions (ui (handleAddTransaction net w)) = []
    \<and> description (ui (handleAddTransaction net w)) = []
    \<and> amount (ui (handleAddTransaction net w)) = []
    \<and> type (ui (handleAddTransaction net w)) = ''expense'')
   \<and> (api_delete net i (server w) = (Responded response, sv)
    \<and> ok response
    \<and> api_get net (userId (ui w)) sv = (g, sv')
    \<and> fetchTransactions_try g = Inl e \<longrightarrow>
      ui (handleDeleteTransaction net i w) =
        handleDeleteTransaction_finish
          ((fetchTransactions_catch e ((ui w)\<lparr>loading := True\<rparr>))\<lparr>loading := False\<rparr>)
    \<and> message (ui (handleDeleteTransaction net i w)) = ''Transaction deleted successfully!''
    \<and> showMessage (ui (handleDeleteTransaction net i w))
    \<and> transactions (ui (handleDeleteTransaction net i w)) = [])"
proof -
  have a: "ui (handleAddTransaction net w) =
        handleAddTransaction_finish
          ((fetchTransactions_catch e ((ui w)\<lparr>loading := True\<rparr>))\<lparr>loading := False\<rparr>)
    \<and> message (ui (handleAddTransaction net w)) = ''Transaction added successfully!''
    \<and> showMessage (ui (handleAddTransaction net w))
    \<and> transactions (ui (handleAddTransaction net w)) = []
    \<and> description (ui (handleAddTransaction net w)) = []
    \<and> amount (ui (handleAddTransaction net w)) = []
    \<and> type (ui (handleAddTransaction net w)) = ''expense''"
    if d: "trim (description (ui w)) \<noteq> []" and pa: "positiveAmount (amount (ui w))"
      and p: "api_post net
           \<lparr>nt_description = trim (description (ui w)), nt_amount = jsonNumber (parseFloat (amount (ui w))),
            nt_type = type (ui w), nt_userId = userId (ui w)\<rparr> (server w)
         = (Responded response, sv)"
      and k: "ok response" and g: "api_get net (userId (ui w)) sv = (g, sv')"
      and f: "fetchTransactions_try g = Inl e"
  proof -
    note h = handleAdd_succeeded [OF validate_accepts [OF d pa] p mutation_try_ok [OF k] g]
    show ?thesis
      unfolding h settle_failed [OF f] by (simp add: finish_fields catch_clears)
  qed
  have b: "ui (handleDeleteTransaction net i w) =
        handleDeleteTransaction_finish
          ((fetchTransactions_catch e ((ui w)\<lparr>loading := True\<rparr>))\<lparr>loading := False\<rparr>)
    \<and> message (ui (handleDeleteTransaction net i w)) = ''Transaction deleted successfully!''
    \<and> showMessage (ui (handleDeleteTransaction net i w))
    \<and> transactions (ui (handleDeleteTransaction net i w)) = []"
    if p: "api_delete net i (server w) = (Responded response, sv)"
      and k: "ok response" and g: "api_get net (userId (ui w)) sv = (g, sv')"
      and f: "fetchTransactions_try g = Inl e"
  proof -
    note h = handleDelete_succeeded [OF p mutation_try_ok [OF k] g]
    show ?thesis
      unfolding h settle_failed [OF f] by (simp add: finish_fields catch_clears)
  qed
  from a b show ?thesis by blast
qed

theorem refresh_failure_overwritten_witness:
  "ok created
   \<and> transactions (ui (loadedWorld (utf16 ''Rent'') (utf16 ''500'') ''expense'')) = [tx1, tx2]
   \<and> message (ui (handleAddTransaction refreshFails (loadedWorld (utf16 ''Rent'') (utf16 ''500'') ''expense'')))
       = ''Transaction added successfully!''
   \<and> transactions (ui (handleAddTransaction refreshFails (loadedWorld (utf16 ''Rent'') (utf16 ''500'') ''expense'')))
       = []
   \<and> amount (ui (handleAddTransaction refreshFails (loadedWorld (utf16 ''Rent'') (utf16 ''500'') ''expense'')))
       = []
   \<and> message (ui (handleDeleteTransaction refreshFails ''1'' (loadedWorld (utf16 ''Rent'') (utf16 ''500'') ''expense'')))
       = ''Transaction deleted successfully!''
   \<and> transactions (ui (handleDeleteTransaction refreshFails ''1''
         (loadedWorld (utf16 ''Rent'') (utf16 ''500'') ''expense''))) = []"
proof -
  let ?w = "loadedWorld (utf16 ''Rent'') (utf16 ''500'') ''expense''"
  let ?e = "''HTTP error! Status: '' @ showNat (status dbDown) @ ''. Message: ''
          @ (if body_text dbDown \<noteq> [] then body_text dbDown else ''No message provided.'')"
  have p: "api_post refreshFails
           \<lparr>nt_description = trim (description (ui ?w)), nt_amount = jsonNumber (parseFloat (amount (ui ?w))),
            nt_type = type (ui ?w), nt_userId = userId (ui ?w)\<rparr> (server ?w)
         = (Responded created, ())"
    by (simp add: refreshFails_def constApi_def)
  have d: "api_delete refreshFails ''1'' (server ?w) = (Responded created, ())"
    by (simp add: refreshFails_def constApi_def)
  have g: "api_get refreshFails (userId (ui ?w)) () = (Responded dbDown, ())"
    by (simp add: refreshFails_def constApi_def)
  have n: "\<not> ok dbDown"
    by (simp add: ok_def dbDown_def)
  note f = try_not_ok [OF n]
  note r = refresh_failure_overwritten [where w = ?w and net = refreshFails
      and response = created and sv = "()" and g = "Responded dbDown" and sv' = "()"
      and e = ?e and i = "''1''"]
  from r [THEN conjunct1] rent500_world(1,2) p ok_created g f
  have a: "message (ui (handleAddTransaction refreshFails ?w)) = ''Transaction added successfully!''
    \<and> transactions (ui (handleAddTransaction refreshFails ?w)) = []
    \<and> amount (ui (handleAddTransaction refreshFails ?w)) = []"
    by blast
  from r [THEN conjunct2] d ok_created g f
  have b: "message (ui (handleDeleteTransaction refreshFails ''1'' ?w))
       = ''Transaction deleted successfully!''
    \<and> transactions (ui (handleDeleteTransaction refreshFails ''1'' ?w)) = []"
    by blast
  from a b ok_created loadedWorld_ui(5) show ?thesis
    by blast
qed

section \<open>A creation or removal request that fails\<close>

text \<open>
  Claim C10. When the creation or removal request itself fails (the fetch rejects or the
  response is not ok), the list of transactions is unchanged and the only request sent is
  the failed one: no list request follows.
\<close>

theorem mutation_failure_keeps_list:
  "(trim (description (ui w)) \<noteq> [] \<and> positiveAmount (amount (ui w))
    \<and> api_post net
           \<lparr>nt_description = trim (description (ui w)), nt_amount = jsonNumber (parseFloat (amount (ui w))),
            nt_type = type (ui w), nt_userId = userId (ui w)\<rparr> (server w)
         = (r, sv)
    \<and> notOk r \<longrightarrow>
      transactions (ui (handleAddTransaction net w)) = transactions (ui w)
    \<and> requests (handleAddTransaction net w) =
        requests w @
        [POST_transactions
           \<lparr>nt_description = trim (description (ui w)), nt_amount = jsonNumber (parseFloat (amount (ui w))),
            nt_type = type (ui w), nt_userId = userId (ui w)\<rparr>]
    \<and> showMessage (ui (handleAddTransaction net w))
    \<and> \<not> loading (ui (handleAddTransaction net w)))
   \<and> (api_delete net i (server w) = (r, sv) \<and> notOk r \<longrightarrow>
      transactions (ui (handleDeleteTransaction net i w)) = transactions (ui w)
    \<and> requests (handleDeleteTransaction net i w) = requests w @ [DELETE_transactions i]
    \<and> showMessage (ui (handleDeleteTransaction net i w))
    \<and> \<not> loading (ui (handleDeleteTransaction net i w)))"
proof -
  have a: "transactions (ui (handleAddTransaction net w)) = transactions (ui w)
    \<and> requests (handleAddTransaction net w) =
        requests w @
        [POST_transactions
           \<lparr>nt_description = trim (description (ui w)), nt_amount = jsonNumber (parseFloat (amount (ui w))),
            nt_type = type (ui w), nt_userId = userId (ui w)\<rparr>]
    \<and> showMessage (ui (handleAddTransaction net w))
    \<and> \<not> loading (ui (handleAddTransaction net w))"
    if d: "trim (description (ui w)) \<noteq> []" and pa: "positiveAmount (amount (ui w))"
      and p: "api_post net
           \<lparr>nt_description = trim (description (ui w)), nt_amount = jsonNumber (parseFloat (amount (ui w))),
            nt_type = type (ui w), nt_userId = userId (ui w)\<rparr> (server w)
         = (r, sv)"
      and n: "notOk r"
  proof -
    from mutation_try_notOk [OF n] obtain m where m: "mutation_try r = Inl m" ..
    show ?thesis
      unfolding handleAdd_failed [OF validate_accepts [OF d pa] p m]
      by (simp add: mutation_catch_keeps)
  qed
  have b: "transactions (ui (handleDeleteTransaction net i w)) = transactions (ui w)
    \<and> requests (handleDeleteTransaction net i w) = requests w @ [DELETE_transactions i]
    \<and> showMessage (ui (handleDeleteTransaction net i w))
    \<and> \<not> loading (ui (handleDeleteTransaction net i w))"
    if p: "api_delete net i (server w) = (r, sv)" and n: "notOk r"
  proof -
    from mutation_try_notOk [OF n] obtain m where m: "mutation_try r = Inl m" ..
    show ?thesis
      unfolding handleDelete_failed [OF p m]
      by (simp add: mutation_catch_keeps)
  qed
  from a b show ?thesis by blast
qed

theorem mutation_failure_keeps_list_witness:
  "notOk (Responded (errorResponse 500 ''Internal Server Error'' :: string option response))
   \<and> notOk (Responded (errorResponse 404 ''Not Found'' :: string option response))
   \<and> transactions (ui (handleAddTransaction rejecting (loadedWorld (utf16 ''Rent'') (utf16 ''500'') ''expense'')))
       = [tx1, tx2]
   \<and> requests (handleAddTransaction rejecting (loadedWorld (utf16 ''Rent'') (utf16 ''500'') ''expense''))
       = [POST_transactions rent500]
   \<and> transactions (ui (handleDeleteTransaction rejecting ''1'' (loadedWorld (utf16 ''Rent'') (utf16 ''500'') ''expense'')))
       = [tx1, tx2]
   \<and> requests (handleDeleteTransaction rejecting ''1'' (loadedWorld (utf16 ''Rent'') (utf16 ''500'') ''expense''))
       = [DELETE_transactions ''1'']"
proof -
  let ?w = "loadedWorld (utf16 ''Rent'') (utf16 ''500'') ''expense''"
  let ?r5 = "Responded (errorResponse 500 ''Internal Server Error'') :: string option response fetch_result"
  let ?r4 = "Responded (errorResponse 404 ''Not Found'') :: string option response fetch_result"
  have n5: "notOk ?r5"
    by (simp add: notOk_def ok_def errorResponse_def)
  have n4: "notOk ?r4"
    by (simp add: notOk_def ok_def errorResponse_def)
  have p: "api_post rejecting
           \<lparr>nt_description = trim (description (ui ?w)), nt_amount = jsonNumber (parseFloat (amount (ui ?w))),
            nt_type = type (ui ?w), nt_userId = userId (ui ?w)\<rparr> (server ?w)
         = (?r5, ())"
    by (simp add: rejecting_def constApi_def)
  have d: "api_delete rejecting ''1'' (server ?w) = (?r4, ())"
    by (simp add: rejecting_def constApi_def)
  from mutation_failure_keeps_list [where w = ?w and net = rejecting and r = ?r5 and sv = "()",
      THEN conjunct1, unfolded rent500_world(3)] rent500_world(1,2) p [unfolded rent500_world(3)] n5
  have a: "transactions (ui (handleAddTransaction rejecting ?w)) = transactions (ui ?w)
    \<and> requests (handleAddTransaction rejecting ?w) = requests ?w @ [POST_transactions rent500]"
    by blast
  from mutation_failure_keeps_list [where w = ?w and net = rejecting and r = ?r4 and sv = "()"
      and i = "''1''", THEN conjunct2] d n4
  have b: "transactions (ui (handleDeleteTransaction rejecting ''1'' ?w)) = transactions (ui ?w)
    \<and> requests (handleDeleteTransaction rejecting ''1'' ?w)
        = requests ?w @ [DELETE_transactions ''1'']"
    by blast
  have a': "transactions (ui (handleAddTransaction rejecting ?w)) = [tx1, tx2]"
    and a'': "requests (handleAddTransaction rejecting ?w) = [POST_transactions rent500]"
    using a by (simp_all add: loadedWorld_ui)
  have b': "transactions (ui (handleDeleteTransaction rejecting ''1'' ?w)) = [tx1, tx2]"
    and b'': "requests (handleDeleteTransaction rejecting ''1'' ?w) = [DELETE_transactions ''1'']"
    using b by (simp_all add: loadedWorld_ui)
  from a' a'' b' b'' n5 n4 show ?thesis
    by blast
qed

section \<open>The user identifier\<close>

lemma showNat_nonempty: "showNat n \<noteq> []"
  by (subst showNat.simps) simp

lemma newUserId_nonempty: "newUserId now r \<noteq> []"
  by (simp add: newUserId_def)

lemma substring_2_9: "substring r 2 9 = take 7 (drop 2 r)"
  by (simp add: substring_def)

lemma showNat_now: "showNat 1700000000000 = ''1700000000000''"
  by (simp add: showNat.simps digitChar_def)

text \<open>
  Claim C6, amended. If the entry \<^verbatim>\<open>financeAppUserId\<close> of the storage is present and
  not the empty string, it is returned and the storage is unchanged. If it is absent or
  the empty string, a new identifier, \<^verbatim>\<open>user_\<close> followed by the time stamp, an
  underscore and up to seven characters of the random number in base 36, is stored under
  that key and returned. The identifier returned is never empty and is the stored entry
  afterwards, so every later initialisation returns the same identifier and leaves the
  storage as it is, whatever its time stamp and random number.
\<close>

theorem initUserId_idempotent:
  "(localStorage ''financeAppUserId'' = Some v \<and> v \<noteq> [] \<longrightarrow>
      initUserId now r localStorage = (v, localStorage))
   \<and> (localStorage ''financeAppUserId'' = None \<or> localStorage ''financeAppUserId'' = Some [] \<longrightarrow>
      initUserId now r localStorage =
        (''user_'' @ showNat now @ ''_'' @ take 7 (drop 2 r),
         localStorage(''financeAppUserId'' \<mapsto> ''user_'' @ showNat now @ ''_'' @ take 7 (drop 2 r))))
   \<and> fst (initUserId now r localStorage) \<noteq> []
   \<and> snd (initUserId now r localStorage) ''financeAppUserId''
       = Some (fst (initUserId now r localStorage))
   \<and> initUserId now' r' (snd (initUserId now r localStorage)) = initUserId now r localStorage"
proof -
  have n: "newUserId now r = ''user_'' @ showNat now @ ''_'' @ take 7 (drop 2 r)"
    by (simp add: newUserId_def substring_2_9)
  have present: "initUserId now r localStorage = (v, localStorage)"
    if "localStorage ''financeAppUserId'' = Some v" "v \<noteq> []"
    using that by (simp add: initUserId_def)
  have absent: "initUserId now r localStorage =
        (newUserId now r, localStorage(''financeAppUserId'' \<mapsto> newUserId now r))"
    if "localStorage ''financeAppUserId'' = None \<or> localStorage ''financeAppUserId'' = Some []"
    using that by (auto simp: initUserId_def)
  have stored: "fst (initUserId now r localStorage) \<noteq> []
      \<and> snd (initUserId now r localStorage) ''financeAppUserId''
          = Some (fst (initUserId now r localStorage))"
    using newUserId_nonempty [of now r]
    by (auto simp: initUserId_def split: option.splits)
  then have again: "initUserId now' r' (snd (initUserId now r localStorage))
      = initUserId now r localStorage"
    by (simp add: initUserId_def [of now' r'])
  from present absent stored again show ?thesis
    unfolding n by blast
qed

theorem initUserId_idempotent_witness:
  "initUserId 1700000000000 ''0.k3x9q2a8l'' Map.empty =
     (''user_1700000000000_k3x9q2a'',
      [''financeAppUserId'' \<mapsto> ''user_1700000000000_k3x9q2a''])
   \<and> initUserId 1700000000001 ''0.zzzzzzzzz'' [''financeAppUserId'' \<mapsto> ''user_1700000000000_k3x9q2a''] =
     (''user_1700000000000_k3x9q2a'',
      [''financeAppUserId'' \<mapsto> ''user_1700000000000_k3x9q2a''])"
proof -
  have e: "(Map.empty :: storage) ''financeAppUserId'' = None \<or> (Map.empty :: storage) ''financeAppUserId'' = Some []"
    by simp
  have p: "[''financeAppUserId'' \<mapsto> ''user_1700000000000_k3x9q2a''] ''financeAppUserId''
       = Some ''user_1700000000000_k3x9q2a'' \<and> ''user_1700000000000_k3x9q2a'' \<noteq> []"
    by simp
  from initUserId_idempotent [where localStorage = Map.empty and now = 1700000000000
      and r = "''0.k3x9q2a8l''", THEN conjunct2, THEN conjunct1] e
  have a: "initUserId 1700000000000 ''0.k3x9q2a8l'' Map.empty =
        (''user_'' @ showNat 1700000000000 @ ''_'' @ take 7 (drop 2 ''0.k3x9q2a8l''),
         [''financeAppUserId'' \<mapsto> ''user_'' @ showNat 1700000000000 @ ''_'' @ take 7 (drop 2 ''0.k3x9q2a8l'')])"
    by blast
  from initUserId_idempotent [where localStorage = "[''financeAppUserId'' \<mapsto> ''user_1700000000000_k3x9q2a'']"
      and v = "''user_1700000000000_k3x9q2a''" and now = 1700000000001 and r = "''0.zzzzzzzzz''",
      THEN conjunct1] p
  have b: "initUserId 1700000000001 ''0.zzzzzzzzz'' [''financeAppUserId'' \<mapsto> ''user_1700000000000_k3x9q2a''] =
     (''user_1700000000000_k3x9q2a'',
      [''financeAppUserId'' \<mapsto> ''user_1700000000000_k3x9q2a''])"
    by blast
  from a b show ?thesis
    by (simp add: showNat_now)
qed

text \<open>
  An entry that is present but empty is not returned: \<^verbatim>\<open>if (storedUserId)\<close> fails
  for the empty string, and a new identifier replaces it.
\<close>

theorem empty_entry_counterexample:
  "[''financeAppUserId'' \<mapsto> []] ''financeAppUserId'' = Some []
   \<and> fst (initUserId 1700000000000 ''0.k3x9q2a8l'' [''financeAppUserId'' \<mapsto> []])
       = ''user_1700000000000_k3x9q2a''
   \<and> snd (initUserId 1700000000000 ''0.k3x9q2a8l'' [''financeAppUserId'' \<mapsto> []])
       ''financeAppUserId'' = Some ''user_1700000000000_k3x9q2a''"
  by (simp add: initUserId_def newUserId_def substring_def showNat_now)


section \<open>Transport failures\<close>

lemma try_rejected: "fetchTransactions_try (Rejected m) = Inl m"
  by (simp add: fetchTransactions_try_def)

lemma mutation_try_rejected: "mutation_try (Rejected m) = Inl m"
  by (simp add: mutation_try_def)

text \<open>
  Claim C8, amended. When the list request of \<^verbatim>\<open>fetchTransactions\<close>, the creation
  request of \<^verbatim>\<open>handleAddTransaction\<close> or the removal request of
  \<^verbatim>\<open>handleDeleteTransaction\<close> does not reach the server, a message is shown. If the
  message of the error contains \<^verbatim>\<open>Failed to fetch\<close> or \<^verbatim>\<open>NetworkError\<close>, it is
  the message that the server at \<^verbatim>\<open>http://localhost:5000/api\<close> cannot be reached,
  which names that location; otherwise it is the prefix of the operation followed by the
  message of the error. When the creation or removal request succeeds and the list
  request of the refresh that follows does not reach the server, the handler replaces
  the message of the refresh by its success confirmation: that is the message shown in
  the end, over an empty list.
\<close>

theorem transport_failure_notice:
  "(api_get net (userId (ui w)) (server w) = (Rejected m, sv) \<longrightarrow>
      showMessage (ui (fetchTransactions net w))
    \<and> message (ui (fetchTransactions net w)) =
        (if transportMarker m
         then ''Could not connect to the backend server at http://localhost:5000/api. Please ensure your backend (server.js) is running in a separate terminal.''
         else ''Error fetching data: '' @ m)
    \<and> (transportMarker m \<longrightarrow> str_includes (message (ui (fetchTransactions net w))) API_BASE_URL))
   \<and> (handleAddTransaction_validate (ui w) = Inr body
      \<and> api_post net body (server w) = (Rejected m, sv) \<longrightarrow>
      showMessage (ui (handleAddTransaction net w))
    \<and> message (ui (handleAddTransaction net w)) =
        (if transportMarker m
         then ''Could not connect to the backend server at http://localhost:5000/api. Please ensure your backend (server.js) is running.''
         else ''Error adding transaction: '' @ m)
    \<and> (transportMarker m \<longrightarrow> str_includes (message (ui (handleAddTransaction net w))) API_BASE_URL))
   \<and> (api_delete net i (server w) = (Rejected m, sv) \<longrightarrow>
      showMessage (ui (handleDeleteTransaction net i w))
    \<and> message (ui (handleDeleteTransaction net i w)) =
        (if transportMarker m
         then ''Could not connect to the backend server at http://localhost:5000/api. Please ensure your backend (server.js) is running.''
         else ''Error deleting transaction: '' @ m)
    \<and> (transportMarker m \<longrightarrow> str_includes (message (ui (handleDeleteTransaction net i w))) API_BASE_URL))
   \<and> (handleAddTransaction_validate (ui w) = Inr body
      \<and> api_post net body (server w) = (Responded response, sv) \<and> ok response
      \<and> api_get net (userId (ui w)) sv = (Rejected m, sv') \<longrightarrow>
      showMessage (ui (handleAddTransaction net w))
    \<and> message (ui (handleAddTransaction net w)) = ''Transaction added successfully!''
    \<and> transactions (ui (handleAddTransaction net w)) = [])
   \<and> (api_delete net i (server w) = (Responded response, sv) \<and> ok response
      \<and> api_get net (userId (ui w)) sv = (Rejected m, sv') \<longrightarrow>
      showMessage (ui (handleDeleteTransaction net i w))
    \<and> message (ui (handleDeleteTransaction net i w)) = ''Transaction deleted successfully!''
    \<and> transactions (ui (handleDeleteTransaction net i w)) = [])"
proof -
  note t = try_rejected [of m]
  note mt = mutation_try_rejected [of m]
  have l: "showMessage (ui (fetchTransactions net w))
    \<and> message (ui (fetchTransactions net w)) =
        (if transportMarker m
         then ''Could not connect to the backend server at http://localhost:5000/api. Please ensure your backend (server.js) is running in a separate terminal.''
         else ''Error fetching data: '' @ m)
    \<and> (transportMarker m \<longrightarrow> str_includes (message (ui (fetchTransactions net w))) API_BASE_URL)"
    if g: "api_get net (userId (ui w)) (server w) = (Rejected m, sv)"
    unfolding fetchTransactions_unfold [OF g] settle_failed [OF t]
    using connect_names_server(1) by (simp add: catch_message catch_clears)
  have a: "showMessage (ui (handleAddTransaction net w))
    \<and> message (ui (handleAddTransaction net w)) =
        (if transportMarker m
         then ''Could not connect to the backend server at http://localhost:5000/api. Please ensure your backend (server.js) is running.''
         else ''Error adding transaction: '' @ m)
    \<and> (transportMarker m \<longrightarrow> str_includes (message (ui (handleAddTransaction net w))) API_BASE_URL)"
    if v: "handleAddTransaction_validate (ui w) = Inr body"
      and p: "api_post net body (server w) = (Rejected m, sv)"
    unfolding handleAdd_failed [OF v p mt]
    using connect_names_server(2) by (simp add: add_catch_message mutation_catch_keeps)
  have d: "showMessage (ui (handleDeleteTransaction net i w))
    \<and> message (ui (handleDeleteTransaction net i w)) =
        (if transportMarker m
         then ''Could not connect to the backend server at http://localhost:5000/api. Please ensure your backend (server.js) is running.''
         else ''Error deleting transaction: '' @ m)
    \<and> (transportMarker m \<longrightarrow> str_includes (message (ui (handleDeleteTransaction net i w))) API_BASE_URL)"
    if p: "api_delete net i (server w) = (Rejected m, sv)"
    unfolding handleDelete_failed [OF p mt]
    using connect_names_server(2) by (simp add: delete_catch_message mutation_catch_keeps)
  have ra: "showMessage (ui (handleAddTransaction net w))
    \<and> message (ui (handleAddTransaction net w)) = ''Transaction added successfully!''
    \<and> transactions (ui (handleAddTransaction net w)) = []"
    if v: "handleAddTransaction_validate (ui w) = Inr body"
      and p: "api_post net body (server w) = (Responded response, sv)" and k: "ok response"
      and g: "api_get net (userId (ui w)) sv = (Rejected m, sv')"
    unfolding handleAdd_succeeded [OF v p mutation_try_ok [OF k] g] settle_failed [OF t]
    by (simp add: finish_fields catch_clears)
  have rd: "showMessage (ui (handleDeleteTransaction net i w))
    \<and> message (ui (handleDeleteTransaction net i w)) = ''Transaction deleted successfully!''
    \<and> transactions (ui (handleDeleteTransaction net i w)) = []"
    if p: "api_delete net i (server w) = (Responded response, sv)" and k: "ok response"
      and g: "api_get net (userId (ui w)) sv = (Rejected m, sv')"
    unfolding handleDelete_succeeded [OF p mutation_try_ok [OF k] g] settle_failed [OF t]
    by (simp add: finish_fields catch_clears)
  from l a d ra rd show ?thesis by blast
qed

theorem transport_failure_notice_witness:
  "transportMarker ''Failed to fetch''
   \<and> message (ui (fetchTransactions offline (loadedWorld (utf16 ''Rent'') (utf16 ''500'') ''expense'')))
     = ''Could not connect to the backend server at http://localhost:5000/api. Please ensure your backend (server.js) is running in a separate terminal.''
   \<and> message (ui (handleAddTransaction offline (loadedWorld (utf16 ''Rent'') (utf16 ''500'') ''expense'')))
     = ''Could not connect to the backend server at http://localhost:5000/api. Please ensure your backend (server.js) is running.''
   \<and> message (ui (handleDeleteTransaction offline ''1'' (loadedWorld (utf16 ''Rent'') (utf16 ''500'') ''expense'')))
     = ''Could not connect to the backend server at http://localhost:5000/api. Please ensure your backend (server.js) is running.''
   \<and> str_includes (message (ui (handleDeleteTransaction offline ''1''
         (loadedWorld (utf16 ''Rent'') (utf16 ''500'') ''expense'')))) API_BASE_URL
   \<and> ok created
   \<and> message (ui (handleAddTransaction refreshOffline
         (loadedWorld (utf16 ''Rent'') (utf16 ''500'') ''expense'')))
     = ''Transaction added successfully!''
   \<and> message (ui (handleDeleteTransaction refreshOffline ''1''
         (loadedWorld (utf16 ''Rent'') (utf16 ''500'') ''expense'')))
     = ''Transaction deleted successfully!''
   \<and> transactions (ui (handleDeleteTransaction refreshOffline ''1''
         (loadedWorld (utf16 ''Rent'') (utf16 ''500'') ''expense''))) = []"
proof -
  let ?w = "loadedWorld (utf16 ''Rent'') (utf16 ''500'') ''expense''"
  have mk: "transportMarker ''Failed to fetch''"
    by (simp add: transportMarker_def)
  have v: "handleAddTransaction_validate (ui ?w) = Inr rent500"
    using rent_500_valid [of "ui ?w"] by (simp add: loadedWorld_ui rent500_def)
  have g: "api_get offline (userId (ui ?w)) (server ?w) = (Rejected ''Failed to fetch'', ())"
    by (simp add: offline_def constApi_def)
  have p: "api_post offline rent500 (server ?w) = (Rejected ''Failed to fetch'', ())"
    by (simp add: offline_def constApi_def)
  have d: "api_delete offline ''1'' (server ?w) = (Rejected ''Failed to fetch'', ())"
    by (simp add: offline_def constApi_def)
  have p': "api_post refreshOffline rent500 (server ?w) = (Responded created, ())"
    by (simp add: refreshOffline_def constApi_def)
  have d': "api_delete refreshOffline ''1'' (server ?w) = (Responded created, ())"
    by (simp add: refreshOffline_def constApi_def)
  have g': "api_get refreshOffline (userId (ui ?w)) () = (Rejected ''Failed to fetch'', ())"
    by (simp add: refreshOffline_def constApi_def)
  note n = transport_failure_notice [where net = offline and w = ?w and m = "''Failed to fetch''"
      and sv = "()" and body = rent500 and i = "''1''"]
  note r = transport_failure_notice [where net = refreshOffline and w = ?w
      and m = "''Failed to fetch''" and sv = "()" and sv' = "()" and body = rent500 and i = "''1''"
      and response = created]
  from n [THEN conjunct1, THEN mp, OF g, unfolded if_P [OF mk]] mk have 1: "message (ui (fetchTransactions offline ?w))
     = ''Could not connect to the backend server at http://localhost:5000/api. Please ensure your backend (server.js) is running in a separate terminal.''"
    by blast
  from n [THEN conjunct2, THEN conjunct1, THEN mp, OF conjI [OF v p], unfolded if_P [OF mk]] mk have 2: "message (ui (handleAddTransaction offline ?w))
     = ''Could not connect to the backend server at http://localhost:5000/api. Please ensure your backend (server.js) is running.''"
    by blast
  from n [THEN conjunct2, THEN conjunct2, THEN conjunct1, THEN mp, OF d, unfolded if_P [OF mk]] mk have 3: "message (ui (handleDeleteTransaction offline ''1'' ?w))
     = ''Could not connect to the backend server at http://localhost:5000/api. Please ensure your backend (server.js) is running.''
     \<and> str_includes (message (ui (handleDeleteTransaction offline ''1'' ?w))) API_BASE_URL"
    by blast
  from r [THEN conjunct2, THEN conjunct2, THEN conjunct2, THEN conjunct1] v p' ok_created g'
  have 4: "message (ui (handleAddTransaction refreshOffline ?w)) = ''Transaction added successfully!''"
    by blast
  from r [THEN conjunct2, THEN conjunct2, THEN conjunct2, THEN conjunct2] d' ok_created g'
  have 5: "message (ui (handleDeleteTransaction refreshOffline ''1'' ?w))
       = ''Transaction deleted successfully!''
     \<and> transactions (ui (handleDeleteTransaction refreshOffline ''1'' ?w)) = []"
    by blast
  from mk 1 2 3 ok_created 4 5 show ?thesis by blast
qed

text \<open>
  A transport error whose message has neither marker, such as \<^verbatim>\<open>Load failed\<close>, is
  shown like any other error, and the message does not name the server. An error sent by
  the server whose text has a marker is shown with the message of a transport failure.
  A list request that does not reach the server during the refresh of a successful
  creation leaves the success confirmation on the screen, not the message about the
  server.
\<close>

theorem load_failed_counterexample:
  "api_get loadFailed (userId (ui (loadedWorld [] [] ''expense''))) ()
     = (Rejected ''Load failed'', ())
   \<and> message (ui (fetchTransactions loadFailed (loadedWorld [] [] ''expense'')))
     = ''Error fetching data: Load failed''
   \<and> \<not> str_includes (message (ui (fetchTransactions loadFailed (loadedWorld [] [] ''expense''))))
         API_BASE_URL
   \<and> api_post upstreamDown rent500 ()
     = (Responded \<lparr>status = 502, body_text = [],
                    body_json = Inr (Some ''NetworkError: upstream unavailable'')\<rparr>, ())
   \<and> message (ui (handleAddTransaction upstreamDown (loadedWorld (utf16 ''Rent'') (utf16 ''500'') ''expense'')))
     = ''Could not connect to the backend server at http://localhost:5000/api. Please ensure your backend (server.js) is running.''
   \<and> api_post refreshOffline rent500 () = (Responded created, ())
   \<and> api_get refreshOffline (userId (ui (loadedWorld (utf16 ''Rent'') (utf16 ''500'') ''expense''))) ()
     = (Rejected ''Failed to fetch'', ())
   \<and> message (ui (handleAddTransaction refreshOffline
         (loadedWorld (utf16 ''Rent'') (utf16 ''500'') ''expense'')))
     = ''Transaction added successfully!''
   \<and> \<not> str_includes (message (ui (handleAddTransaction refreshOffline
         (loadedWorld (utf16 ''Rent'') (utf16 ''500'') ''expense'')))) API_BASE_URL"
proof -
  let ?w = "loadedWorld [] [] ''expense''"
  let ?v = "loadedWorld (utf16 ''Rent'') (utf16 ''500'') ''expense''"
  let ?r = "Responded \<lparr>status = 502, body_text = [],
                    body_json = Inr (Some ''NetworkError: upstream unavailable'')\<rparr>
            :: string option response fetch_result"
  have g: "api_get loadFailed (userId (ui ?w)) (server ?w) = (Rejected ''Load failed'', ())"
    by (simp add: loadFailed_def constApi_def)
  have t: "fetchTransactions_try (Rejected ''Load failed'') = Inl ''Load failed''"
    by (simp add: fetchTransactions_try_def)
  have nm: "\<not> transportMarker ''Load failed''"
    by (simp add: transportMarker_def)
  have m: "message (ui (fetchTransactions loadFailed ?w)) = ''Error fetching data: Load failed''"
    unfolding fetchTransactions_unfold [OF g] settle_failed [OF t]
    using nm by (simp add: catch_message)
  have n: "\<not> str_includes (message (ui (fetchTransactions loadFailed ?w))) API_BASE_URL"
    unfolding m by (simp add: API_BASE_URL_def)
  have v: "handleAddTransaction_validate (ui ?v) = Inr rent500"
    using rent_500_valid [of "ui ?v"] by (simp add: loadedWorld_ui rent500_def)
  have p: "api_post upstreamDown rent500 (server ?v) = (?r, ())"
    by (simp add: upstreamDown_def constApi_def)
  have e: "mutation_try ?r = Inl ''NetworkError: upstream unavailable''"
    by (simp add: mutation_try_def ok_def)
  have mk: "transportMarker ''NetworkError: upstream unavailable''"
    by (simp add: transportMarker_def)
  have a: "message (ui (handleAddTransaction upstreamDown ?v))
     = ''Could not connect to the backend server at http://localhost:5000/api. Please ensure your backend (server.js) is running.''"
    unfolding handleAdd_failed [OF v p e]
    using mk by (simp add: add_catch_message)
  have p': "api_post upstreamDown rent500 () = (?r, ())"
    by (simp add: upstreamDown_def constApi_def)
  have g': "api_get loadFailed (userId (ui ?w)) () = (Rejected ''Load failed'', ())"
    by (simp add: loadFailed_def constApi_def)
  have q: "api_post refreshOffline rent500 (server ?v) = (Responded created, ())"
    by (simp add: refreshOffline_def constApi_def)
  have q': "api_post refreshOffline rent500 () = (Responded created, ())"
    by (simp add: refreshOffline_def constApi_def)
  have h: "api_get refreshOffline (userId (ui ?v)) () = (Rejected ''Failed to fetch'', ())"
    by (simp add: refreshOffline_def constApi_def)
  have s: "message (ui (handleAddTransaction refreshOffline ?v)) = ''Transaction added successfully!''"
    unfolding handleAdd_succeeded [OF v q mutation_try_ok [OF ok_created] h]
    by (simp add: finish_fields)
  have s': "\<not> str_includes (message (ui (handleAddTransaction refreshOffline ?v))) API_BASE_URL"
    unfolding s by (simp add: API_BASE_URL_def)
  from g' m n p' a q' h s s' show ?thesis
    by blast
qed


section \<open>Adding and then listing\<close>

lemma specApi_sel:
  "api_get specApi = spec_get" "api_post specApi = spec_post" "api_delete specApi = spec_delete"
  by (simp_all add: specApi_def)

lemma try_okResponse: "fetchTransactions_try (Responded (okResponse xs)) = Inr xs"
  by (simp add: fetchTransactions_try_def okResponse_def ok_def)

lemma list_specApi:
  "transactions (ui (fetchTransactions specApi w))
     = filter (\<lambda>t. tx_userId t = userId (ui w)) (stored (server w))"
  "server (fetchTransactions specApi w) = server w"
proof -
  have g: "api_get specApi (userId (ui w)) (server w)
      = (Responded (okResponse (filter (\<lambda>t. tx_userId t = userId (ui w)) (stored (server w)))),
         server w)"
    by (simp add: specApi_sel spec_get_def)
  show "transactions (ui (fetchTransactions specApi w))
     = filter (\<lambda>t. tx_userId t = userId (ui w)) (stored (server w))"
    unfolding fetchTransactions_unfold [OF g] by (simp add: settle_ok [OF try_okResponse])
  show "server (fetchTransactions specApi w) = server w"
    unfolding fetchTransactions_unfold [OF g] by simp
qed

lemma dropWhile_fixed: "xs \<noteq> [] \<Longrightarrow> \<not> P (hd xs) \<Longrightarrow> dropWhile P xs = xs"
  by (cases xs) simp_all

lemma last_dropWhile: "dropWhile P xs \<noteq> [] \<Longrightarrow> last (dropWhile P xs) = last xs"
  by (induction xs) (auto split: if_splits)

text \<open>Trimming a trimmed string changes nothing.\<close>

lemma trim_idem: "trim (trim s) = trim s"
proof (cases "trim s = []")
  case True
  have "trim [] = []"
    by (simp add: trim_def)
  then show ?thesis
    unfolding True .
next
  case False
  define e where "e = dropWhile isWhiteSpace s"
  define f where "f = dropWhile isWhiteSpace (rev e)"
  have t: "trim s = rev f"
    by (simp add: trim_def e_def f_def)
  with False have f: "f \<noteq> []"
    by simp
  then have hf: "\<not> isWhiteSpace (hd f)"
    unfolding f_def by (rule hd_dropWhile)
  from f have e: "e \<noteq> []"
    by (auto simp: f_def)
  then have he: "\<not> isWhiteSpace (hd e)"
    unfolding e_def by (rule hd_dropWhile)
  have "last f = last (rev e)"
    using f unfolding f_def by (rule last_dropWhile)
  also have "\<dots> = hd e"
    using e by (simp add: last_rev)
  finally have lf: "\<not> isWhiteSpace (last f)"
    using he by simp
  have "hd (rev f) = last f"
    using f by (simp add: hd_rev)
  with lf f have 1: "dropWhile isWhiteSpace (rev f) = rev f"
    by (intro dropWhile_fixed) simp_all
  from f hf have 2: "dropWhile isWhiteSpace f = f"
    by (rule dropWhile_fixed)
  show ?thesis
    unfolding t by (simp add: trim_def 1 2)
qed

lemma positiveAmount_cases:
  assumes "positiveAmount a"
  obtains r where "parseFloat a = Num r" and "0 < r" | "parseFloat a = PosInf"
  using assms by (cases "parseFloat a") (auto simp: positiveAmount_def)

lemma spec_post_valid:
  assumes "validBody body"
  shows "api_post specApi body sv =
     (Responded \<lparr>status = 201, body_text = [], body_json = Inr None\<rparr>,
      sv\<lparr>stored := stored sv @
            [\<lparr>tx_id = showNat (nextId sv), tx_description = nt_description body,
              tx_amount = nt_amount body, tx_type = nt_type body, tx_timestamp = clock sv,
              tx_userId = nt_userId body\<rparr>],
         nextId := Suc (nextId sv)\<rparr>)"
  using assms by (simp add: specApi_sel spec_post_def)

lemma spec_post_invalid:
  assumes "\<not> validBody body"
  shows "api_post specApi body sv =
     (Responded \<lparr>status = 400, body_text = [], body_json = Inr (Some ''Invalid transaction'')\<rparr>,
      sv)"
  using assms by (simp add: specApi_sel spec_post_def)

text \<open>
  Claim C3. Against the remote API as the specification describes it, for a description
  that is not blank, an amount that \<^verbatim>\<open>parseFloat\<close> reads as a positive number and the
  type income or expense, the creation request succeeds exactly when the number read is
  finite. When it succeeds, the list shown after \<^verbatim>\<open>handleAddTransaction\<close>, which is
  also the list that a further list request gives, is the list that a list request gave
  before with exactly one entry added: its description is the trimmed description, its
  amount the number read (and read back as that number by \<^verbatim>\<open>parseFloat\<close>), its
  type and user id the ones submitted. When the number read
  is infinite, the body carries \<^verbatim>\<open>null\<close> for the amount, the creation fails, and the
  list and the store are unchanged.
\<close>

theorem add_then_list_has_new_entry:
  assumes "trim (description (ui w)) \<noteq> []"
    and "positiveAmount (amount (ui w))"
    and "type (ui w) = ''income'' \<or> type (ui w) = ''expense''"
  shows "(\<not> notOk (fst (api_post specApi
             \<lparr>nt_description = trim (description (ui w)),
              nt_amount = jsonNumber (parseFloat (amount (ui w))),
              nt_type = type (ui w), nt_userId = userId (ui w)\<rparr> (server w)))
          \<longleftrightarrow> isFinite (parseFloat (amount (ui w))))
     \<and> (isFinite (parseFloat (amount (ui w))) \<longrightarrow>
          transactions (ui (handleAddTransaction specApi w))
            = transactions (ui (fetchTransactions specApi w))
              @ [\<lparr>tx_id = showNat (nextId (server w)), tx_description = trim (description (ui w)),
                  tx_amount = ANum (finiteValue (parseFloat (amount (ui w)))),
                  tx_type = type (ui w), tx_timestamp = clock (server w),
                  tx_userId = userId (ui w)\<rparr>]
        \<and> parseFloat (amount (ui w)) = Num (finiteValue (parseFloat (amount (ui w))))
        \<and> parseFloat_json (ANum (finiteValue (parseFloat (amount (ui w)))))
            = parseFloat (amount (ui w))
        \<and> 0 < finiteValue (parseFloat (amount (ui w)))
        \<and> transactions (ui (fetchTransactions specApi (handleAddTransaction specApi w)))
            = transactions (ui (handleAddTransaction specApi w))
        \<and> message (ui (handleAddTransaction specApi w)) = ''Transaction added successfully!'')
     \<and> (\<not> isFinite (parseFloat (amount (ui w))) \<longrightarrow>
          requests (handleAddTransaction specApi w)
            = requests w @ [POST_transactions
                 \<lparr>nt_description = trim (description (ui w)), nt_amount = ANull,
                  nt_type = type (ui w), nt_userId = userId (ui w)\<rparr>]
        \<and> transactions (ui (handleAddTransaction specApi w)) = transactions (ui w)
        \<and> server (handleAddTransaction specApi w) = server w
        \<and> showMessage (ui (handleAddTransaction specApi w)))"
proof -
  let ?body = "\<lparr>nt_description = trim (description (ui w)),
              nt_amount = jsonNumber (parseFloat (amount (ui w))),
              nt_type = type (ui w), nt_userId = userId (ui w)\<rparr>"
  note v = validate_accepts [OF assms(1,2)]
  from assms(2) show ?thesis
  proof (cases rule: positiveAmount_cases)
    case (1 r)
    let ?new = "\<lparr>tx_id = showNat (nextId (server w)), tx_description = trim (description (ui w)),
             tx_amount = ANum r, tx_type = type (ui w), tx_timestamp = clock (server w),
             tx_userId = userId (ui w)\<rparr>"
    let ?sv = "(server w)\<lparr>stored := stored (server w) @ [?new], nextId := Suc (nextId (server w))\<rparr>"
    let ?after = "filter (\<lambda>t. tx_userId t = userId (ui w)) (stored ?sv)"
    have vb: "validBody ?body"
      using assms(1,3) 1 by (simp add: validBody_def trim_idem)
    have p: "api_post specApi ?body (server w)
      = (Responded \<lparr>status = 201, body_text = [], body_json = Inr None\<rparr>, ?sv)"
      unfolding spec_post_valid [OF vb] by (simp add: 1)
    have k: "ok \<lparr>status = 201, body_text = [], body_json = Inr None :: string + string option\<rparr>"
      by (simp add: ok_def)
    have g: "api_get specApi (userId (ui w)) ?sv = (Responded (okResponse ?after), ?sv)"
      by (simp add: specApi_sel spec_get_def)
    note h = handleAdd_succeeded [OF v p mutation_try_ok [OF k] g]
    have u: "userId (ui (handleAddTransaction specApi w)) = userId (ui w)"
      unfolding h by (simp add: handleAddTransaction_finish_def settle_ok [OF try_okResponse])
    have s: "server (handleAddTransaction specApi w) = ?sv"
      unfolding h by simp
    have a: "transactions (ui (handleAddTransaction specApi w)) = ?after"
      unfolding h by (simp add: finish_fields settle_ok [OF try_okResponse])
    have b: "transactions (ui (fetchTransactions specApi (handleAddTransaction specApi w))) = ?after"
      unfolding list_specApi(1) u s ..
    have c: "?after = transactions (ui (fetchTransactions specApi w)) @ [?new]"
      unfolding list_specApi(1) by simp
    have m: "message (ui (handleAddTransaction specApi w)) = ''Transaction added successfully!''"
      unfolding h by (simp add: finish_fields)
    have n: "\<not> notOk (fst (api_post specApi ?body (server w)))"
      unfolding p using k by (simp add: notOk_def)
    have j: "parseFloat_json (ANum r) = Num r"
      using parseFloat_double [OF 1(1)] by simp
    from a b c m n j 1 show ?thesis
      by simp
  next
    case 2
    have vb: "\<not> validBody ?body"
      by (simp add: validBody_def 2)
    note p = spec_post_invalid [OF vb, of "server w"]
    have e: "mutation_try (Responded \<lparr>status = 400, body_text = [],
        body_json = Inr (Some ''Invalid transaction'')\<rparr>) = Inl ''Invalid transaction''"
      by (simp add: mutation_try_def ok_def)
    note h = handleAdd_failed [OF v p e]
    have n: "notOk (fst (api_post specApi ?body (server w)))"
      unfolding p by (simp add: notOk_def ok_def)
    have q: "requests (handleAddTransaction specApi w)
            = requests w @ [POST_transactions
                 \<lparr>nt_description = trim (description (ui w)), nt_amount = ANull,
                  nt_type = type (ui w), nt_userId = userId (ui w)\<rparr>]"
      unfolding h by (simp add: 2)
    have k: "transactions (ui (handleAddTransaction specApi w)) = transactions (ui w)
        \<and> server (handleAddTransaction specApi w) = server w
        \<and> showMessage (ui (handleAddTransaction specApi w))"
      unfolding h by (simp add: mutation_catch_keeps)
    from n q k 2 show ?thesis
      by simp
  qed
qed

theorem add_then_list_has_new_entry_witness:
  "trim (description (ui (formWorld (utf16 '' Rent  '') (utf16 ''500'') ''expense'' store0))) \<noteq> []
   \<and> positiveAmount (amount (ui (formWorld (utf16 '' Rent  '') (utf16 ''500'') ''expense'' store0)))
   \<and> type (ui (formWorld (utf16 '' Rent  '') (utf16 ''500'') ''expense'' store0)) = ''expense''
   \<and> isFinite (parseFloat (amount (ui (formWorld (utf16 '' Rent  '') (utf16 ''500'') ''expense'' store0))))
   \<and> \<not> notOk (fst (api_post specApi rent500 store0))
   \<and> transactions (ui (fetchTransactions specApi
         (formWorld (utf16 '' Rent  '') (utf16 ''500'') ''expense'' store0))) = [tx1, tx2]
   \<and> transactions (ui (handleAddTransaction specApi
         (formWorld (utf16 '' Rent  '') (utf16 ''500'') ''expense'' store0))) = [tx1, tx2, tx4]
   \<and> positiveAmount (utf16 ''1e309'')
   \<and> \<not> isFinite (parseFloat (utf16 ''1e309''))
   \<and> transactions (ui (handleAddTransaction specApi
         (formWorld (utf16 ''Rent'') (utf16 ''1e309'') ''expense'' store0))) = []
   \<and> server (handleAddTransaction specApi
         (formWorld (utf16 ''Rent'') (utf16 ''1e309'') ''expense'' store0)) = store0"
proof -
  let ?w = "formWorld (utf16 '' Rent  '') (utf16 ''500'') ''expense'' store0"
  let ?v = "formWorld (utf16 ''Rent'') (utf16 ''1e309'') ''expense'' store0"
  have u: "description (ui (formWorld d a t store0)) = d" "amount (ui (formWorld d a t store0)) = a"
    "type (ui (formWorld d a t store0)) = t"
    "userId (ui (formWorld d a t store0)) = ''user_1700000000000_k3x9q2a''"
    "transactions (ui (formWorld d a t store0)) = []"
    "server (formWorld d a t store0) = store0" for d a t
    by (simp_all add: formWorld_def formState_def initialState_def)
  have d: "trim (description (ui ?w)) \<noteq> []"
    by (simp add: u trim_Rent_spaces Rent_not_blank)
  have a: "parseFloat (amount (ui ?w)) = Num 500"
    by (simp add: u parseFloat_500)
  have pa: "positiveAmount (amount (ui ?w))"
    by (simp add: positiveAmount_def a)
  have ty: "type (ui ?w) = ''expense''"
    by (simp add: u)
  have fi: "isFinite (parseFloat (amount (ui ?w)))"
    by (simp add: a)
  have body: "\<lparr>nt_description = trim (description (ui ?w)),
            nt_amount = jsonNumber (parseFloat (amount (ui ?w))),
            nt_type = type (ui ?w), nt_userId = userId (ui ?w)\<rparr> = rent500"
    unfolding a by (simp add: u trim_Rent_spaces rent500_def)
  have b: "transactions (ui (fetchTransactions specApi ?w)) = [tx1, tx2]"
    unfolding list_specApi(1) u
    by (simp add: store0_def tx1_def tx2_def tx3_def)
  have n: "\<lparr>tx_id = showNat (nextId store0), tx_description = trim (description (ui ?w)),
             tx_amount = ANum (finiteValue (parseFloat (amount (ui ?w)))),
             tx_type = type (ui ?w), tx_timestamp = clock store0,
             tx_userId = userId (ui ?w)\<rparr> = tx4"
    unfolding u
    by (simp add: store0_def tx4_def trim_Rent_spaces parseFloat_500 showNat.simps digitChar_def)
  note th = add_then_list_has_new_entry [OF d pa disjI2 [OF ty], unfolded n b body u(6)]
  from th fi have k: "\<not> notOk (fst (api_post specApi rent500 store0))"
    by blast
  from th fi have "transactions (ui (handleAddTransaction specApi ?w)) = [tx1, tx2] @ [tx4]"
    by blast
  then have r: "transactions (ui (handleAddTransaction specApi ?w)) = [tx1, tx2, tx4]"
    by simp
  have d': "trim (description (ui ?v)) \<noteq> []"
    by (simp add: u trim_Rent Rent_not_blank)
  have pb: "positiveAmount (utf16 ''1e309'')"
    by (simp add: positiveAmount_def parseFloat_1e309)
  have nf: "\<not> isFinite (parseFloat (utf16 ''1e309''))"
    by (simp add: parseFloat_1e309)
  have ty': "type (ui ?v) = ''expense''"
    by (simp add: u)
  note th' = add_then_list_has_new_entry [OF d' _ disjI2 [OF ty'], unfolded u(2,5,6)]
  from th' pb nf have i: "transactions (ui (handleAddTransaction specApi ?v)) = []
      \<and> server (handleAddTransaction specApi ?v) = store0"
    by blast
  from d pa ty fi k b r pb nf i show ?thesis
    by blast
qed


section \<open>The state machine of the operations\<close>

lemma initUserId_nonempty: "fst (initUserId now r localStorage) \<noteq> []"
  using newUserId_nonempty [of now r]
  by (auto simp: initUserId_def split: option.splits)

lemma mount_production:
  "mount Production now r localStorage =
     \<lparr>view = initialState (fst (initUserId now r localStorage)),
      inflight = [AwaitList OnMount]\<rparr>"
  using initUserId_nonempty [of now r localStorage]
  by (simp add: mount_def mountEffect_def initialState_def Let_def)

lemma mount_development:
  "mount Development now r localStorage =
     \<lparr>view = initialState (fst (initUserId now r localStorage)),
      inflight = [AwaitList OnMount, AwaitList OnMount]\<rparr>"
  using initUserId_nonempty [of now r localStorage]
  by (simp add: mount_def mountEffect_def initialState_def Let_def)

lemma mount_idleOrPending: "idleOrPending (mount Production now r localStorage)"
  by (simp add: mount_production idleOrPending_def initialState_def)

lemma settle_not_loading: "\<not> loading (fetchTransactions_settle g s)"
  by (simp add: fetchTransactions_settle_def)

lemma resume_not_loading: "\<not> loading s \<Longrightarrow> \<not> loading (resume k s)"
  by (cases k) (simp_all add: finish_fields)

lemma singleton_inflight:
  "length xs \<le> 1 \<Longrightarrow> i < length xs \<Longrightarrow> i = 0 \<and> xs = [xs ! 0]"
  by (cases xs) auto

lemma step_idleOrPending:
  assumes "idleOrPending c" and "step e c = Some c'"
  shows "idleOrPending c'"
proof (cases e)
  case (ChangeDescription v)
  with assms show ?thesis by (auto simp: idleOrPending_def)
next
  case (ChangeAmount v)
  with assms show ?thesis by (auto simp: idleOrPending_def)
next
  case (ChangeType v)
  with assms show ?thesis by (auto simp: idleOrPending_def)
next
  case CloseMessage
  with assms show ?thesis by (auto simp: idleOrPending_def)
next
  case ClickAdd
  with assms show ?thesis
    by (auto simp: idleOrPending_def split: if_splits sum.splits)
next
  case (ClickDelete i)
  with assms show ?thesis
    by (auto simp: idleOrPending_def split: if_splits)
next
  case (ListSettled i g)
  with assms have i: "i < length (inflight c)"
    by (simp split: if_splits)
  from singleton_inflight [OF _ i] assms(1) have z: "i = 0" "inflight c = [inflight c ! 0]"
    by (simp_all add: idleOrPending_def)
  from assms(2) ListSettled i z obtain k where
    "c' = \<lparr>view = resume k (fetchTransactions_settle g (view c)), inflight = removeAt 0 (inflight c)\<rparr>"
    by (auto split: task.splits)
  moreover have "removeAt 0 (inflight c) = []"
    by (subst z(2)) (simp add: removeAt_def)
  ultimately show ?thesis
    using resume_not_loading [OF settle_not_loading]
    by (simp add: idleOrPending_def)
next
  case (MutationSettled i r)
  with assms have i: "i < length (inflight c)"
    by (simp split: if_splits)
  from singleton_inflight [OF _ i] assms(1) have z: "i = 0" "inflight c = [inflight c ! 0]"
    by (simp_all add: idleOrPending_def)
  have e: "removeAt 0 (inflight c) = []"
    by (subst z(2)) (simp add: removeAt_def)
  have u: "length ((inflight c)[0 := t]) = 1" "(inflight c)[0 := t] \<noteq> []" for t
    by (subst z(2), simp)+
  from assms(2) MutationSettled i z e u show ?thesis
    by (auto simp: idleOrPending_def split: task.splits sum.splits)
qed

lemma run_idleOrPending:
  "idleOrPending c \<Longrightarrow> run es c = Some c' \<Longrightarrow> idleOrPending c'"
proof (induction es arbitrary: c)
  case Nil
  then show ?case by simp
next
  case (Cons e es)
  then show ?case
    by (auto split: option.splits dest: step_idleOrPending)
qed


lemma mutation_try_cases:
  "notOk r \<Longrightarrow> \<exists>m. mutation_try r = Inl m"
  "\<not> notOk r \<Longrightarrow> mutation_try r = Inr ()"
  by (auto simp: mutation_try_def notOk_def split: fetch_result.splits sum.splits option.splits)

lemma list_settles:
  assumes "inflight c = [AwaitList k]"
  shows "\<exists>c'. step (ListSettled 0 g) c = Some c' \<and> inflight c' = [] \<and> \<not> loading (view c')"
  using assms resume_not_loading [OF settle_not_loading]
  by (simp add: removeAt_def)

lemma mutation_settles:
  assumes "inflight c = [t]" and "mutating t"
  shows "\<exists>c'. step (MutationSettled 0 r) c = Some c'
       \<and> (if notOk r then inflight c' = [] \<and> \<not> loading (view c')
           else (\<exists>k. inflight c' = [AwaitList k]) \<and> loading (view c'))"
proof (cases "notOk r")
  case True
  from mutation_try_cases(1) [OF True] obtain m where "mutation_try r = Inl m" ..
  with assms True show ?thesis
    by (auto simp: mutating_def removeAt_def)
next
  case False
  from mutation_try_cases(2) [OF False] assms False show ?thesis
    by (auto simp: mutating_def)
qed

lemma idle_accepts_click:
  assumes "inflight c = []" and "idleOrPending c"
  shows "\<exists>c'. step ClickAdd c = Some c'"
  using assms by (auto simp: idleOrPending_def split: sum.splits)

lemma pending_refuses_click:
  assumes "inflight c \<noteq> []" and "idleOrPending c"
  shows "step ClickAdd c = None \<and> step (ClickDelete i) c = None"
  using assms by (simp add: idleOrPending_def)

text \<open>
  The runs of the transition system that carry out one operation end in the state that
  the handler computes: the transition system and the handlers describe the same code.
\<close>

lemma run_add_rejected:
  assumes "\<not> loading (ui w)" and "handleAddTransaction_validate (ui w) = Inl m"
  shows "run [ClickAdd] \<lparr>view = ui w, inflight = []\<rparr>
       = Some \<lparr>view = ui (handleAddTransaction net w), inflight = []\<rparr>"
  using assms by (simp add: handleAddTransaction_def)

lemma run_add_failed:
  assumes "\<not> loading (ui w)" and "handleAddTransaction_validate (ui w) = Inr body"
    and "api_post net body (server w) = (r, sv)" and "notOk r"
  shows "run [ClickAdd, MutationSettled 0 r] \<lparr>view = ui w, inflight = []\<rparr>
       = Some \<lparr>view = ui (handleAddTransaction net w), inflight = []\<rparr>"
proof -
  from mutation_try_cases(1) [OF assms(4)] obtain m where m: "mutation_try r = Inl m" ..
  show ?thesis
    unfolding handleAdd_failed [OF assms(2,3) m]
    using assms(1,2) m by (simp add: removeAt_def)
qed

lemma run_add_succeeded:
  assumes "\<not> loading (ui w)" and "handleAddTransaction_validate (ui w) = Inr body"
    and "api_post net body (server w) = (r, sv)" and "\<not> notOk r"
    and "api_get net (userId (ui w)) sv = (g, sv')"
  shows "run [ClickAdd, MutationSettled 0 r, ListSettled 0 g] \<lparr>view = ui w, inflight = []\<rparr>
       = Some \<lparr>view = ui (handleAddTransaction net w), inflight = []\<rparr>"
  unfolding handleAdd_succeeded [OF assms(2,3) mutation_try_cases(2) [OF assms(4)] assms(5)]
  using assms(1,2) mutation_try_cases(2) [OF assms(4)] by (simp add: removeAt_def)

lemma run_delete_failed:
  assumes "\<not> loading (ui w)" and "i \<in> set (map tx_id (transactions (ui w)))"
    and "api_delete net i (server w) = (r, sv)" and "notOk r"
  shows "run [ClickDelete i, MutationSettled 0 r] \<lparr>view = ui w, inflight = []\<rparr>
       = Some \<lparr>view = ui (handleDeleteTransaction net i w), inflight = []\<rparr>"
proof -
  from mutation_try_cases(1) [OF assms(4)] obtain m where m: "mutation_try r = Inl m" ..
  show ?thesis
    unfolding handleDelete_failed [OF assms(3) m]
    using assms(1,2) m by (simp add: removeAt_def)
qed

lemma run_delete_succeeded:
  assumes "\<not> loading (ui w)" and "i \<in> set (map tx_id (transactions (ui w)))"
    and "api_delete net i (server w) = (r, sv)" and "\<not> notOk r"
    and "api_get net (userId (ui w)) sv = (g, sv')"
  shows "run [ClickDelete i, MutationSettled 0 r, ListSettled 0 g] \<lparr>view = ui w, inflight = []\<rparr>
       = Some \<lparr>view = ui (handleDeleteTransaction net i w), inflight = []\<rparr>"
  unfolding handleDelete_succeeded [OF assms(3) mutation_try_cases(2) [OF assms(4)] assms(5)]
  using assms(1,2) mutation_try_cases(2) [OF assms(4)] by (simp add: removeAt_def)

lemma mount_returning:
  "mount Production 1700000000001 ''0.zzzzzzzzz'' returning =
     \<lparr>view = initialState ''user_1700000000000_k3x9q2a'', inflight = [AwaitList OnMount]\<rparr>"
  "mount Development 1700000000001 ''0.zzzzzzzzz'' returning =
     \<lparr>view = initialState ''user_1700000000000_k3x9q2a'',
      inflight = [AwaitList OnMount, AwaitList OnMount]\<rparr>"
  by (simp_all add: mount_production mount_development initUserId_def returning_def)

lemma run_loaded:
  "run [ListSettled 0 (Responded (listed [tx1, tx2]))]
     (mount Production 1700000000001 ''0.zzzzzzzzz'' returning) = Some loaded"
proof -
  have t: "fetchTransactions_try (Responded (listed [tx1, tx2])) = Inr [tx1, tx2]"
    by (simp add: fetchTransactions_try_def ok_def listed_def)
  show ?thesis
    by (simp add: mount_returning(1) settle_ok [OF t] removeAt_def loaded_def)
qed

lemma run_session:
  "run session (mount Production 1700000000001 ''0.zzzzzzzzz'' returning) = Some pendingAdd"
proof -
  have t: "fetchTransactions_try (Responded (listed [tx1, tx2])) = Inr [tx1, tx2]"
    by (simp add: fetchTransactions_try_def ok_def listed_def)
  have v: "handleAddTransaction_validate
      (initialState ''user_1700000000000_k3x9q2a''
         \<lparr>transactions := [tx1, tx2], loading := False, description := utf16 ''Rent'',
          amount := utf16 ''500''\<rparr>) =
     Inr \<lparr>nt_description = utf16 ''Rent'', nt_amount = ANum 500, nt_type = ''expense'',
          nt_userId = ''user_1700000000000_k3x9q2a''\<rparr>"
    by (subst rent_500_valid) (simp_all add: initialState_def)
  show ?thesis
    by (simp add: session_def mount_returning(1) settle_ok [OF t] removeAt_def v)
      (simp add: pendingAdd_def loadedWorld_def formState_def initialState_def)
qed

text \<open>
  A production build, where the mount effect runs once. In every configuration that the
  component reaches from its mount, by any sequence of input changes, clicks and settled
  requests, at most one request is in flight, hence at most one creation or removal
  request; \<^verbatim>\<open>loading\<close> holds exactly while a request is in flight, and then neither
  button gives a click. With nothing in flight the add button can be clicked. When the
  request in flight settles, with any outcome, the operation either is complete, with
  nothing in flight and the controls enabled again, or (after a creation or removal
  request that succeeded) has its list request in flight, whose settling completes it.
\<close>

lemma production_one_request_at_a_time:
  assumes "run es (mount Production now random36 localStorage) = Some c"
  shows "length (inflight c) \<le> 1
     \<and> length (filter mutating (inflight c)) \<le> 1
     \<and> (loading (view c) \<longleftrightarrow> inflight c \<noteq> [])
     \<and> (inflight c \<noteq> [] \<longrightarrow> step ClickAdd c = None \<and> step (ClickDelete i) c = None)
     \<and> (inflight c = [] \<longrightarrow> (\<exists>c'. step ClickAdd c = Some c'))
     \<and> (inflight c = [AwaitList k] \<longrightarrow>
          (\<exists>c'. step (ListSettled 0 g) c = Some c' \<and> inflight c' = [] \<and> \<not> loading (view c')))
     \<and> (inflight c = [t] \<and> mutating t \<longrightarrow>
          (\<exists>c'. step (MutationSettled 0 r) c = Some c'
             \<and> (if notOk r then inflight c' = [] \<and> \<not> loading (view c')
                 else (\<exists>k. inflight c' = [AwaitList k]) \<and> loading (view c'))))"
proof -
  have inv: "idleOrPending c"
    using mount_idleOrPending assms by (rule run_idleOrPending)
  then have l: "length (inflight c) \<le> 1" and b: "loading (view c) \<longleftrightarrow> inflight c \<noteq> []"
    by (simp_all add: idleOrPending_def)
  have m: "length (filter mutating (inflight c)) \<le> 1"
    using length_filter_le l by (rule order_trans)
  from l m b pending_refuses_click [OF _ inv] idle_accepts_click [OF _ inv]
    list_settles mutation_settles
  show ?thesis by blast
qed

lemma production_one_request_at_a_time_example:
  "run [] (mount Production 1700000000001 ''0.zzzzzzzzz'' returning)
     = Some (mount Production 1700000000001 ''0.zzzzzzzzz'' returning)
   \<and> inflight (mount Production 1700000000001 ''0.zzzzzzzzz'' returning) = [AwaitList OnMount]
   \<and> (\<exists>c'. step (ListSettled 0 (Responded (listed [tx1, tx2])))
              (mount Production 1700000000001 ''0.zzzzzzzzz'' returning) = Some c'
          \<and> inflight c' = [] \<and> \<not> loading (view c'))
   \<and> run [ListSettled 0 (Responded (listed [tx1, tx2]))]
         (mount Production 1700000000001 ''0.zzzzzzzzz'' returning) = Some loaded
   \<and> inflight loaded = []
   \<and> (\<exists>c'. step ClickAdd loaded = Some c')
   \<and> run session (mount Production 1700000000001 ''0.zzzzzzzzz'' returning) = Some pendingAdd
   \<and> inflight pendingAdd = [AwaitPost]
   \<and> mutating AwaitPost
   \<and> loading (view pendingAdd)
   \<and> step ClickAdd pendingAdd = None
   \<and> step (ClickDelete ''1'') pendingAdd = None
   \<and> notOk (Rejected ''Failed to fetch'' :: string option response fetch_result)
   \<and> (\<exists>c'. step (MutationSettled 0 (Rejected ''Failed to fetch'')) pendingAdd = Some c'
          \<and> inflight c' = [] \<and> \<not> loading (view c'))"
proof -
  let ?m = "mount Production 1700000000001 ''0.zzzzzzzzz'' returning"
  let ?g = "Responded (listed [tx1, tx2])"
  let ?r = "Rejected ''Failed to fetch'' :: string option response fetch_result"
  have r0: "run [] ?m = Some ?m"
    by simp
  have i0: "inflight ?m = [AwaitList OnMount]"
    by (simp add: mount_returning(1))
  have i1: "inflight loaded = []"
    by (simp add: loaded_def)
  have i2: "inflight pendingAdd = [AwaitPost]"
    by (simp add: pendingAdd_def)
  have mu: "mutating AwaitPost"
    by (simp add: mutating_def)
  have n: "notOk ?r"
    by (simp add: notOk_def)
  from production_one_request_at_a_time [OF r0, where k = OnMount and g = ?g] i0
  have a: "\<exists>c'. step (ListSettled 0 ?g) ?m = Some c' \<and> inflight c' = [] \<and> \<not> loading (view c')"
    by blast
  from production_one_request_at_a_time [OF run_loaded] i1
  have b: "\<exists>c'. step ClickAdd loaded = Some c'"
    by blast
  note p = production_one_request_at_a_time [OF run_session, where i = "''1''" and t = AwaitPost and r = ?r]
  from p i2 have c: "loading (view pendingAdd)"
    and d: "step ClickAdd pendingAdd = None" "step (ClickDelete ''1'') pendingAdd = None"
    by simp_all
  from p [unfolded if_P [OF n]] i2 mu
  have e: "\<exists>c'. step (MutationSettled 0 ?r) pendingAdd = Some c'
          \<and> inflight c' = [] \<and> \<not> loading (view c')"
    by blast
  from r0 i0 a run_loaded i1 b run_session i2 mu c d n e show ?thesis
    by blast
qed


text \<open>
  Claim C7. In a development build the mount effect runs twice, and its two list
  requests are in flight together. When the first of them settles, \<^verbatim>\<open>loading\<close> is
  switched off while the second is still in flight, and the buttons give clicks again; a
  creation request sent then is still in flight when the second list request settles and
  switches \<^verbatim>\<open>loading\<close> off once more; a second click on the add button sends a second
  creation request while the first is in flight.
\<close>

theorem strict_mode_overlapping_requests:
  "inflight (mount Development 1700000000001 ''0.zzzzzzzzz'' returning)
     = [AwaitList OnMount, AwaitList OnMount]
   \<and> loading (view (mount Development 1700000000001 ''0.zzzzzzzzz'' returning))
   \<and> (\<exists>c. run [ListSettled 0 (Responded (listed [tx1, tx2]))]
              (mount Development 1700000000001 ''0.zzzzzzzzz'' returning) = Some c
          \<and> inflight c = [AwaitList OnMount] \<and> \<not> loading (view c))
   \<and> (\<exists>c. run (butlast overlapping)
              (mount Development 1700000000001 ''0.zzzzzzzzz'' returning) = Some c
          \<and> inflight c = [AwaitPost] \<and> \<not> loading (view c))
   \<and> (\<exists>c. run overlapping (mount Development 1700000000001 ''0.zzzzzzzzz'' returning) = Some c
          \<and> inflight c = [AwaitPost, AwaitPost]
          \<and> length (filter mutating (inflight c)) = 2)"
proof -
  have t: "fetchTransactions_try (Responded (listed [tx1, tx2])) = Inr [tx1, tx2]"
    by (simp add: fetchTransactions_try_def ok_def listed_def)
  have 0: "inflight (mount Development 1700000000001 ''0.zzzzzzzzz'' returning)
     = [AwaitList OnMount, AwaitList OnMount]
   \<and> loading (view (mount Development 1700000000001 ''0.zzzzzzzzz'' returning))"
    by (simp add: mount_returning(2) initialState_def)
  have 1: "\<exists>c. run [ListSettled 0 (Responded (listed [tx1, tx2]))]
              (mount Development 1700000000001 ''0.zzzzzzzzz'' returning) = Some c
          \<and> inflight c = [AwaitList OnMount] \<and> \<not> loading (view c)"
    by (simp add: mount_returning(2) settle_ok [OF t] removeAt_def)
  have 2: "\<exists>c. run (butlast overlapping)
              (mount Development 1700000000001 ''0.zzzzzzzzz'' returning) = Some c
          \<and> inflight c = [AwaitPost] \<and> \<not> loading (view c)"
    by (simp add: overlapping_def mount_returning(2) settle_ok [OF t] removeAt_def
        rent_500_valid initialState_def)
  have 3: "\<exists>c. run overlapping (mount Development 1700000000001 ''0.zzzzzzzzz'' returning) = Some c
          \<and> inflight c = [AwaitPost, AwaitPost]
          \<and> length (filter mutating (inflight c)) = 2"
    by (simp add: overlapping_def mount_returning(2) settle_ok [OF t] removeAt_def
        rent_500_valid initialState_def mutating_def)
  from 0 1 2 3 show ?thesis
    by blast
qed

end
